theory Spec2Isabelle
  imports Complex_Main
begin

section \<open>JavaScript values used by the program\<close>

text \<open>
  A JavaScript \<open>number\<close>. The finite doubles are idealised as exact rationals (the
  rounding of double arithmetic is not modelled); the two infinities and NaN are kept,
  because the program tests \<open>isNaN\<close> and divides by a difference of clock readings
  that can be zero. Negative zero is identified with zero: the program only compares
  it with \<open>=== 0\<close> and \<open>|| 0\<close>, which do not tell the two apart.
\<close>

datatype number = Fin rat | PosInf | NegInf | NaN

definition isNaN :: "number \<Rightarrow> bool" where
  "isNaN x = (x = NaN)"

text \<open>\<open>a / b\<close> on two finite numbers.\<close>

definition js_div :: "rat \<Rightarrow> rat \<Rightarrow> number" where
  "js_div a b =
     (if b \<noteq> 0 then Fin (a / b)
      else if 0 < a then PosInf
      else if a < 0 then NegInf
      else NaN)"

text \<open>
  \<open>parseFloat(x.toFixed(1))\<close>: \<open>toFixed(1)\<close> takes the integer \<open>n\<close> for which
  \<open>n / 10\<close> is closest to the magnitude of \<open>x\<close> (the larger \<open>n\<close> on a tie) and
  restores the sign; \<open>Infinity\<close> and \<open>NaN\<close> print as their names and parse back.
\<close>

definition toFixed1 :: "rat \<Rightarrow> rat" where
  "toFixed1 x =
     (let n = \<lfloor>\<bar>x\<bar> * 10 + 1 / 2\<rfloor>
      in (if x < 0 then - 1 else 1) * of_int n / 10)"

fun roundOneDecimal :: "number \<Rightarrow> number" where
  "roundOneDecimal (Fin x) = Fin (toFixed1 x)"
| "roundOneDecimal PosInf = PosInf"
| "roundOneDecimal NegInf = NegInf"
| "roundOneDecimal NaN = NaN"

text \<open>
  Strings are lists of code units; a \<open>char\<close> stands for the code unit of the same
  number (0 to 255), which covers the ASCII protocol of the console.
  \<open>substring\<close> swaps its arguments when they are out of order and clamps them to the
  length, as \<open>String.prototype.substring\<close> does (\<open>take\<close> and \<open>drop\<close> clamp).
\<close>

definition substring :: "nat \<Rightarrow> nat \<Rightarrow> string \<Rightarrow> string" where
  "substring a b s = take (max a b - min a b) (drop (min a b) s)"

definition startsWith :: "string \<Rightarrow> string \<Rightarrow> bool" where
  "startsWith s p = (take (length p) s = p)"

definition endsWith :: "string \<Rightarrow> string \<Rightarrow> bool" where
  "endsWith s p = (length p \<le> length s \<and> drop (length s - length p) s = p)"

text \<open>
  \<open>parseInt(s, 16)\<close> after ECMAScript: leading white space is dropped, one sign is
  read, one \<open>0x\<close> or \<open>0X\<close> is dropped, and the longest run of hexadecimal digits that
  follows is the number; with no digit there the result is NaN (\<open>None\<close>).
\<close>

definition isWhiteSpace :: "char \<Rightarrow> bool" where
  "isWhiteSpace c = (of_char c \<in> {9, 10, 11, 12, 13, 32, 160 :: nat})"

definition hexDigit :: "char \<Rightarrow> nat option" where
  "hexDigit c =
     (let n = (of_char c :: nat) in
      if 48 \<le> n \<and> n \<le> 57 then Some (n - 48)
      else if 65 \<le> n \<and> n \<le> 70 then Some (n - 55)
      else if 97 \<le> n \<and> n \<le> 102 then Some (n - 87)
      else None)"

fun hexPrefix :: "string \<Rightarrow> nat list" where
  "hexPrefix [] = []"
| "hexPrefix (c # cs) = (case hexDigit c of None \<Rightarrow> [] | Some d \<Rightarrow> d # hexPrefix cs)"

definition mathInt :: "nat list \<Rightarrow> nat" where
  "mathInt ds = foldl (\<lambda>acc d. 16 * acc + d) 0 ds"

definition stripSign :: "string \<Rightarrow> string" where
  "stripSign S = (if S \<noteq> [] \<and> (hd S = CHR ''+'' \<or> hd S = CHR ''-'') then tl S else S)"

definition stripPrefix :: "string \<Rightarrow> string" where
  "stripPrefix S = (if take 2 S = ''0x'' \<or> take 2 S = ''0X'' then drop 2 S else S)"

definition parseInt16 :: "string \<Rightarrow> int option" where
  "parseInt16 inputString =
     (let S = dropWhile isWhiteSpace inputString;
          sign = (if S \<noteq> [] \<and> hd S = CHR ''-'' then - 1 else 1);
          Z = hexPrefix (stripPrefix (stripSign S))
      in if Z = [] then None else Some (sign * int (mathInt Z)))"

text \<open>
  \<open>parseInt(data.substring(6, 10), 16) || 0\<close>, the first statement of
  \<open>parseAndPublishData\<close>: NaN and zero are the falsy results, and both give 0.
\<close>

definition payloadValue :: "string \<Rightarrow> int" where
  "payloadValue data =
     (case parseInt16 (substring 6 10 data) of None \<Rightarrow> 0 | Some v \<Rightarrow> v)"

section \<open>Measurements, devices and the shared store\<close>

text \<open>
  \<open>Metric\<close> and \<open>Unit\<close> are unions of string literals, so they are strings at run
  time. A \<open>Measurement\<close> is an object; the devices and the recorder hold references to
  the same objects, so the objects live in a store and the arrays hold references.
\<close>

type_synonym Metric = string
type_synonym Unit = string

record Measurement =
  val :: number
  unit :: Unit
  metric :: Metric

type_synonym ref = nat
type_synonym store = "ref \<Rightarrow> Measurement"

text \<open>
  What the program does to the outside, oldest entry first: the lines written to the
  serial port, the messages published on MQTT (topic and value; the payload is the
  value's \<open>toString()\<close>), the topics subscribed to, the console lines, the timers made by
  \<open>setInterval\<close> (period in milliseconds and whether still running; the handle is the
  position in the list) and the write streams made by \<open>fs.createWriteStream\<close>.
\<close>

datatype piece = Str string | IntVal int | NumVal number

record WriteStream =
  createdAt :: int
  written :: "piece list list"
  closed :: bool

record world =
  heap :: store
  serial :: "string list"
  mqtt :: "(string \<times> number) list"
  subscribed :: "string list"
  console :: "string list"
  intervals :: "(nat \<times> bool) list"
  streams :: "WriteStream list"

record SportingDevice =
  type :: string
  measurements :: "ref list"

text \<open>\<open>this.measurements.find(m => m.metric === name)\<close>, over references.\<close>

definition findMetric :: "store \<Rightarrow> ref list \<Rightarrow> Metric \<Rightarrow> ref option" where
  "findMetric h refs name = List.find (\<lambda>a. metric (h a) = name) refs"

definition setValue :: "ref \<Rightarrow> number \<Rightarrow> world \<Rightarrow> world" where
  "setValue a v w = w\<lparr>heap := (heap w)(a := (heap w a)\<lparr>val := v\<rparr>)\<rparr>"

text \<open>\<open>SportingDevice.publish\<close>: topic \<open>type/metric\<close>, the measurement's current value.\<close>

definition publish :: "string \<Rightarrow> ref \<Rightarrow> world \<Rightarrow> world" where
  "publish ty a w = w\<lparr>mqtt := mqtt w @ [(ty @ ''/'' @ metric (heap w a), val (heap w a))]\<rparr>"

section \<open>The WaterRower S4 driver\<close>

text \<open>
  The fields of \<open>WaterRowerS4\<close>: \<open>port\<close> is whether the serial port object exists,
  \<open>lastStrokeTimestamp\<close> and \<open>activityTimeout\<close> are \<open>None\<close> while undefined.
\<close>

record WaterRowerS4 = SportingDevice +
  port :: bool
  lastStrokeTimestamp :: "int option"
  activityTimeout :: "nat option"

type_synonym driver = "WaterRowerS4 \<times> world"

definition send :: "string \<Rightarrow> driver \<Rightarrow> driver" where
  "send v s =
     (case s of (d, w) \<Rightarrow>
        if \<not> port d
        then (d, w\<lparr>console := console w @ [''Communication needs to be initialized first.'']\<rparr>)
        else (d, w\<lparr>serial := serial w @ [v @ [CHR 0x0D, CHR 0x0A]]\<rparr>))"

text \<open>
  \<open>parseAndPublishData(data, metric)\<close> at clock reading \<open>now\<close> (\<open>Date.now()\<close>).
  \<open>if (this.lastStrokeTimestamp)\<close> is a truthiness test: undefined and 0 are falsy.
  In the cadence branch a missing cadence measurement returns before the timestamp
  is stored; every other early \<open>return\<close> leaves the state as it is at that point.
  The branches repeat one pattern: find the measurement, return if it is missing,
  assign the value, publish. That pattern is \<open>storeAndPublish\<close>.
\<close>

definition storeAndPublish :: "Metric \<Rightarrow> number \<Rightarrow> driver \<Rightarrow> driver" where
  "storeAndPublish name v s =
     (case s of (d, w) \<Rightarrow>
        (case findMetric (heap w) (measurements d) name of
           None \<Rightarrow> (d, w)
         | Some a \<Rightarrow> (d, publish (type d) a (setValue a v w))))"

definition truthy :: "int option \<Rightarrow> bool" where
  "truthy t = (case t of None \<Rightarrow> False | Some x \<Rightarrow> x \<noteq> 0)"

definition parseAndPublishData :: "int \<Rightarrow> string \<Rightarrow> Metric \<Rightarrow> driver \<Rightarrow> driver" where
  "parseAndPublishData now data name s =
     (case s of (d, w) \<Rightarrow>
      let v = payloadValue data in
      if name = ''distance'' then storeAndPublish ''distance'' (Fin (of_int v)) (d, w)
      else if name = ''power'' then storeAndPublish ''power'' (Fin (of_int v)) (d, w)
      else if name = ''cadence'' then
        (if truthy (lastStrokeTimestamp d) then
           (let msSinceLastStroke = now - the (lastStrokeTimestamp d);
                cadence = roundOneDecimal (js_div (60 * 1000) (of_int msSinceLastStroke))
            in case findMetric (heap w) (measurements d) ''cadence'' of
                 None \<Rightarrow> (d, w)
               | Some a \<Rightarrow>
                   (d\<lparr>lastStrokeTimestamp := Some now\<rparr>, publish (type d) a (setValue a cadence w)))
         else (d\<lparr>lastStrokeTimestamp := Some now\<rparr>, w))
      else if name = ''speed'' then
        (case findMetric (heap w) (measurements d) ''speed'' of
           None \<Rightarrow> (d, w)
         | Some a \<Rightarrow>
             (let w1 = publish (type d) a (setValue a (js_div (of_int v) 100) w)
              in if v \<noteq> 0
                 then storeAndPublish ''split'' (js_div 50000 (of_int v)) (d, w1)
                 else (d, w1)))
      else if name = ''total_cycles'' then storeAndPublish ''total_cycles'' (Fin (of_int v)) (d, w)
      else (d, w))"

text \<open>
  \<open>onData\<close>: seven independent \<open>if\<close> statements, run in the order of the source. The
  clock is read inside \<open>parseAndPublishData\<close>; one reading \<open>now\<close> serves the whole
  call, since at most one of the statements calls it (shown below).
\<close>

definition logFirmware :: "string \<Rightarrow> driver \<Rightarrow> driver" where
  "logFirmware stringData s =
     (case s of (d, w) \<Rightarrow>
        (d, w\<lparr>console := console w @
              [''Using WaterRower S4 with firmware version '' @
               substring 3 5 stringData @ ''.'' @ substring 5 7 stringData]\<rparr>))"

definition startDistancePolling :: "driver \<Rightarrow> driver" where
  "startDistancePolling s =
     (case s of (d, w) \<Rightarrow>
        if activityTimeout d = None
        then (d\<lparr>activityTimeout := Some (length (intervals w))\<rparr>,
              w\<lparr>intervals := intervals w @ [(500, True)]\<rparr>)
        else (d, w))"

definition onStrokeStart :: "int \<Rightarrow> driver \<Rightarrow> driver" where
  "onStrokeStart now s =
     startDistancePolling (send ''IRD088'' (parseAndPublishData now [] ''cadence'' s))"

definition onData :: "int \<Rightarrow> string \<Rightarrow> driver \<Rightarrow> driver" where
  "onData now stringData s0 =
     (let s1 = (if startsWith stringData ''_WR_'' then send ''IV?'' s0 else s0);
          s2 = (if startsWith stringData ''IV4'' then logFirmware stringData s1 else s1);
          s3 = (if startsWith stringData ''SS'' then onStrokeStart now s2 else s2);
          s4 = (if startsWith stringData ''IDD088''
                then send ''IRD140'' (parseAndPublishData now stringData ''power'' s3) else s3);
          s5 = (if startsWith stringData ''IDD140''
                then parseAndPublishData now stringData ''total_cycles'' s4 else s4);
          s6 = (if startsWith stringData ''IDD057''
                then send ''IRD14A'' (parseAndPublishData now stringData ''distance'' s5) else s5);
          s7 = (if startsWith stringData ''IDD14A''
                then parseAndPublishData now stringData ''speed'' s6 else s6)
      in s7)"

text \<open>The callback of the 500 ms timer started by the first stroke.\<close>

definition onActivityTimeout :: "driver \<Rightarrow> driver" where
  "onActivityTimeout s = send ''IRD057'' s"

text \<open>
  The measurement objects a new \<open>WaterRowerS4\<close> and a new \<open>HeartRateMonitor\<close> create,
  placed at references 0 to 5 and 6 of the store.
\<close>

definition newMeasurement :: "Metric \<Rightarrow> Unit \<Rightarrow> Measurement" where
  "newMeasurement name u = \<lparr>val = Fin 0, unit = u, metric = name\<rparr>"

definition initialStore :: store where
  "initialStore =
     (\<lambda>a. newMeasurement [] [])
       (0 := newMeasurement ''distance'' ''m'',
        1 := newMeasurement ''power'' ''watts'',
        2 := newMeasurement ''total_cycles'' ''cycles'',
        3 := newMeasurement ''speed'' ''m/s'',
        4 := newMeasurement ''cadence'' ''spm'',
        5 := newMeasurement ''split'' ''s/500 m'',
        6 := newMeasurement ''heart_rate'' ''bpm'')"

definition initialWorld :: world where
  "initialWorld =
     \<lparr>heap = initialStore, serial = [], mqtt = [], subscribed = [], console = [],
      intervals = [], streams = []\<rparr>"

definition waterRower :: WaterRowerS4 where
  "waterRower =
     \<lparr>type = ''waterrower'', measurements = [0, 1, 2, 3, 4, 5],
      port = True, lastStrokeTimestamp = None, activityTimeout = None\<rparr>"

definition heartRateMonitor :: SportingDevice where
  "heartRateMonitor = \<lparr>type = ''heart_rate_monitor'', measurements = [6]\<rparr>"

section \<open>The activity recorder\<close>

text \<open>
  \<open>activityrecorder.ts\<close> holds the class \<open>ActivityRecorder\<close> twice: the module
  (lines 6 to 133), whose \<open>stop\<close> and \<open>record\<close> have their whole bodies commented
  out, and the single-file program (lines 425 to 547), where both are implemented.
  The constructor and \<open>openFile\<close> are the same text in both.

  The field \<open>measurements\<close> of the recorder is \<open>measurements_r\<close> here (the name is
  taken by the devices' field); \<open>fileWriter\<close> is the position of the stream in
  \<open>streams\<close>, \<open>None\<close> while undefined.
\<close>

definition GARMIN_EPOCH :: int where
  "GARMIN_EPOCH = 631065600"

record ActivityRecorder =
  recordingInterval :: "nat option"
  fitTimestampStart :: int
  fileWriter :: "nat option"
  sportingDevices :: "SportingDevice list"
  measurements_r :: "ref list"

type_synonym recorder = "ActivityRecorder \<times> world"

text \<open>
  The constructor pushes the elements of every device's \<open>measurements\<close> array, which
  are references to the devices' own objects, onto the recorder's array.
\<close>

definition newActivityRecorder :: "int \<Rightarrow> SportingDevice list \<Rightarrow> ActivityRecorder" where
  "newActivityRecorder now devices =
     \<lparr>recordingInterval = None,
      fitTimestampStart = now div 1000 - GARMIN_EPOCH,
      fileWriter = None,
      sportingDevices = devices,
      measurements_r = concat (map measurements devices)\<rparr>"

text \<open>
  The handler of MQTT messages; \<open>parsed\<close> is \<open>parseFloat(payload.toString())\<close>.
\<close>

definition onMessage :: "string \<Rightarrow> number \<Rightarrow> recorder \<Rightarrow> recorder" where
  "onMessage topic parsed s =
     (case s of (r, w) \<Rightarrow>
        (case List.find (\<lambda>a. endsWith topic (metric (heap w a))) (measurements_r r) of
           None \<Rightarrow> (r, w)
         | Some a \<Rightarrow> (r, setValue a parsed w)))"

text \<open>
  \<open>fileWriter.write(chunk)\<close>. A template literal is kept as its pieces: the literal
  text and the interpolated integers and numbers, whose \<open>toString()\<close> is not modelled.
\<close>

definition writeChunk :: "nat \<Rightarrow> piece list \<Rightarrow> world \<Rightarrow> world" where
  "writeChunk f chunk w =
     w\<lparr>streams := (streams w)[f := (streams w ! f)\<lparr>written := written (streams w ! f) @ [chunk]\<rparr>]\<rparr>"

definition consoleLog :: "string \<Rightarrow> world \<Rightarrow> world" where
  "consoleLog line w = w\<lparr>console := console w @ [line]\<rparr>"

definition openFile :: "int \<Rightarrow> recorder \<Rightarrow> recorder" where
  "openFile now s =
     (case s of (r, w) \<Rightarrow>
      let ts = now div 1000 - GARMIN_EPOCH;
          f = length (streams w);
          w0 = w\<lparr>streams := streams w @ [\<lparr>createdAt = now, written = [], closed = False\<rparr>]\<rparr>;
          w1 = writeChunk f [Str ''Type,Local Number,Message,Field 1,Value 1,Units 1,Field 2,Value 2,Units 2,Field 3,Value 3,Units 3,Field 4,Value 4,Units 4,Field 5,Value 5,Units 5,Field 6,Value 6,Units 6\<newline>''] w0;
          w2 = writeChunk f [Str ''Definition,0,file_id,serial_number,1,,time_created,1,,manufacturer,1,,type,1,\<newline>''] w1;
          w3 = writeChunk f [Str ''Data,0,file_id,serial_number,\"'', IntVal ts,
                        Str ''\",,time_created,\"'', IntVal ts,
                        Str ''\",,manufacturer,\"118\",,type,\"4\",\<newline>''] w2;
          w4 = writeChunk f [Str ''Definition,1,record,timestamp,1,,distance,1,,power,1,,cadence,1,,speed,1,,total_cycles,1,,heart_rate,1,,\<newline>''] w3;
          w5 = writeChunk f [Str ''Definition,2,session,timestamp,1,,start_time,1,,total_elapsed_time,1,total_distance,1,,total_cycles,1,,sport,1,,sub_sport,1,\<newline>''] w4;
          w6 = writeChunk f [Str ''Definition,3,activity,timestamp,1,,num_sessions,1,\<newline>''] w5
      in (r\<lparr>fitTimestampStart := ts, fileWriter := Some f\<rparr>, w6))"

text \<open>
  \<open>start\<close> of the module (lines 34 to 57). A failed subscription only logs from a
  later callback and is not modelled. The timer handle is a truthy object, so the
  guard \<open>!this.recordingInterval\<close> is the test for \<open>None\<close>. The single-file program
  (lines 453 to 479) has the same guard as an early return that logs a line, and calls
  \<open>reset\<close> on every device before it subscribes; the rest is the same.
\<close>

definition subscribeAll :: "SportingDevice list \<Rightarrow> world \<Rightarrow> world" where
  "subscribeAll devices w =
     w\<lparr>subscribed := subscribed w @
          concat (map (\<lambda>device. map (\<lambda>a. type device @ ''/'' @ metric (heap w a))
                                    (measurements device)) devices)\<rparr>"

definition start :: "int \<Rightarrow> recorder \<Rightarrow> recorder" where
  "start now s =
     (case s of (r, w) \<Rightarrow>
      if recordingInterval r = None then
        (case openFile now (r, subscribeAll (sportingDevices r) (consoleLog ''Starting new session'' w)) of
           (r1, w1) \<Rightarrow>
             (r1\<lparr>recordingInterval := Some (length (intervals w1))\<rparr>,
              w1\<lparr>intervals := intervals w1 @ [(1000, True)]\<rparr>))
      else (r, w))"

text \<open>\<open>stop\<close> of the module (lines 84 to 116): every statement is commented out.\<close>

definition stop :: "bool \<Rightarrow> recorder \<Rightarrow> recorder" where
  "stop exit s = s"

text \<open>
  \<open>record\<close> of the single-file program (lines 516 to 544), the callback of the
  one-second timer. Writing to an undefined \<open>fileWriter\<close> throws a TypeError.
\<close>

datatype error = TypeError

definition measurementIds :: "string list" where
  "measurementIds = [''distance'', ''power'', ''total_cycles'', ''speed'', ''cadence'', ''heart_rate'']"

definition recordField :: "ActivityRecorder \<Rightarrow> nat \<Rightarrow> world \<Rightarrow> string \<Rightarrow> world" where
  "recordField r f w measurementId =
     (case findMetric (heap w) (measurements_r r) measurementId of
        None \<Rightarrow> consoleLog (''Measurement '' @ measurementId @ '' not found.'') w
      | Some a \<Rightarrow>
          if isNaN (val (heap w a))
          then consoleLog (''Measurement '' @ measurementId @ '' has invalid value.'') w
          else writeChunk f [Str (metric (heap w a) @ '',\"''), NumVal (val (heap w a)),
                        Str (''\",'' @ unit (heap w a) @ '','')] w)"

definition record_program :: "int \<Rightarrow> recorder \<Rightarrow> error + recorder" where
  "record_program now s =
     (case s of (r, w) \<Rightarrow>
      let total_cycles = findMetric (heap w) (measurements_r r) ''total_cycles'' in
      if total_cycles \<noteq> None \<and> val (heap w (the total_cycles)) = Fin 0
      then Inr (r, consoleLog ''No activity detected yet, skipping data point.'' w)
      else
        (case fileWriter r of
           None \<Rightarrow> Inl TypeError
         | Some f \<Rightarrow>
             let fitTimestamp = now div 1000 - GARMIN_EPOCH;
                 w1 = writeChunk f [Str ''Data,1,record,timestamp,\"'', IntVal fitTimestamp, Str ''\",s,''] w;
                 w2 = foldl (recordField r f) w1 measurementIds
             in Inr (r, writeChunk f [Str ''\<newline>''] w2)))"

text \<open>
  \<open>stop\<close> of the single-file program (lines 493 to 514). It returns the state reached
  and the exception, if one was thrown: a TypeError when \<open>fileWriter\<close> is undefined
  at the first write, or when \<open>distance\<close> or \<open>strokes\<close> was not found at the
  template literal that reads its value. The stream is not closed anywhere.
\<close>

definition clearInterval :: "nat \<Rightarrow> world \<Rightarrow> world" where
  "clearInterval t w = w\<lparr>intervals := (intervals w)[t := (fst (intervals w ! t), False)]\<rparr>"

definition stop_program :: "int \<Rightarrow> recorder \<Rightarrow> recorder \<times> error option" where
  "stop_program now s =
     (case s of (r, w) \<Rightarrow>
      (let r1 = r\<lparr>recordingInterval := None\<rparr>;
           w1 = consoleLog ''Finalizing workout file''
                  (case recordingInterval r of None \<Rightarrow> w | Some t \<Rightarrow> clearInterval t w);
           fitTimestampEnd = now div 1000 - GARMIN_EPOCH;
           sessionDuration = fitTimestampEnd - fitTimestampStart r;
           distance = findMetric (heap w) (measurements_r r) ''distance'';
           strokes = findMetric (heap w) (measurements_r r) ''total_cycles''
       in (case fileWriter r of
             None \<Rightarrow> ((r1, w1), Some TypeError)
           | Some f \<Rightarrow>
              (let w2 = writeChunk f [Str ''Data,2,session,timestamp,\"'', IntVal (fitTimestampStart r),
                                      Str ''\",s,start_time,\"'', IntVal (fitTimestampStart r),
                                      Str ''\",,''] w1;
                   w3 = writeChunk f [Str ''total_elapsed_time,\"'', IntVal sessionDuration,
                                      Str ''\",s,''] w2
               in (case distance of
                     None \<Rightarrow> ((r1, w3), Some TypeError)
                   | Some a \<Rightarrow>
                      (let w4 = writeChunk f [Str ''total_distance,\"'', NumVal (val (heap w a)),
                                              Str ''\",m,''] w3
                       in (case strokes of
                             None \<Rightarrow> ((r1, w4), Some TypeError)
                           | Some b \<Rightarrow>
                              (let w5 = writeChunk f [Str ''total_cycles,\"'', NumVal (val (heap w b)),
                                                      Str ''\",cycles,''] w4;
                                   w6 = writeChunk f [Str ''sport,\"15\",,sub_sport,\"14\",\<newline>''] w5;
                                   w7 = writeChunk f [Str ''Data,3,activity,timestamp,\"'',
                                                      IntVal (fitTimestampStart r),
                                                      Str ''\",,num_sessions,\"1\",\<newline>''] w6
                               in ((r1, w7), None)))))))))"

text \<open>The program's devices and recorder: \<open>new ActivityRecorder([heartRateMonitor, waterRower])\<close>.\<close>

definition activityRecorder :: "int \<Rightarrow> ActivityRecorder" where
  "activityRecorder now =
     newActivityRecorder now [heartRateMonitor, SportingDevice.truncate waterRower]"

section \<open>Runs of the driver\<close>

text \<open>The prefixes tested by the seven statements of \<open>onData\<close>, in their order.\<close>

definition dispatchPrefixes :: "string list" where
  "dispatchPrefixes = [''_WR_'', ''IV4'', ''SS'', ''IDD088'', ''IDD140'', ''IDD057'', ''IDD14A'']"

text \<open>
  The states of the driver after each of a sequence of received lines, every line with
  the clock reading at its arrival.
\<close>

fun states :: "(int \<times> string) list \<Rightarrow> driver \<Rightarrow> driver list" where
  "states [] s = []"
| "states ((now, stringData) # rest) s =
     onData now stringData s # states rest (onData now stringData s)"

text \<open>\<open>x <= y\<close> on numbers: false whenever a side is NaN.\<close>

fun number_le :: "number \<Rightarrow> number \<Rightarrow> bool" where
  "number_le NaN y = False"
| "number_le x NaN = False"
| "number_le NegInf y = True"
| "number_le x PosInf = True"
| "number_le (Fin a) (Fin b) = (a \<le> b)"
| "number_le x y = False"

section \<open>What the recorder is expected to read and write\<close>

text \<open>
  The value that a lookup by metric reads through an array of references: the cached
  value for the recorder's array, the current value for a device's array.
\<close>

definition currentValue :: "store \<Rightarrow> ref list \<Rightarrow> Metric \<Rightarrow> number option" where
  "currentValue h refs name = map_option (\<lambda>a. val (h a)) (findMetric h refs name)"

text \<open>
  The row that the amended claim C1 describes, in its words: the timestamp chunk; then,
  for each of the six metric names in the fixed order that is found in the cache with
  a value that is not NaN, the chunk with its metric, value and unit; then the line
  end. It is compared below with what \<open>record_program\<close> writes.
\<close>

definition recordedFields :: "store \<Rightarrow> ref list \<Rightarrow> string list \<Rightarrow> piece list list" where
  "recordedFields h refs ids =
     map (\<lambda>a. [Str (metric (h a) @ '',\"''), NumVal (val (h a)), Str (''\",'' @ unit (h a) @ '','')])
         (filter (\<lambda>a. \<not> isNaN (val (h a))) (List.map_filter (findMetric h refs) ids))"

definition expectedRow :: "store \<Rightarrow> ref list \<Rightarrow> int \<Rightarrow> piece list list" where
  "expectedRow h refs now =
     [Str ''Data,1,record,timestamp,\"'', IntVal (now div 1000 - GARMIN_EPOCH), Str ''\",s,''] #
     recordedFields h refs measurementIds @ [[Str ''\<newline>'']]"

section \<open>Decoding the payload\<close>

lemma hexDigit_plain:
  assumes "hexDigit c = Some x"
  shows "\<not> isWhiteSpace c" and "c \<noteq> CHR ''+''" and "c \<noteq> CHR ''-''"
    and "c \<noteq> CHR ''x''" and "c \<noteq> CHR ''X''"
  using assms by (auto simp: hexDigit_def isWhiteSpace_def Let_def split: if_splits)

lemma hexPrefix_digits:
  assumes "\<forall>c \<in> set ds. hexDigit c \<noteq> None"
    and "rest = [] \<or> hexDigit (hd rest) = None"
  shows "hexPrefix (ds @ rest) = map (the \<circ> hexDigit) ds"
  using assms
proof (induction ds)
  case Nil
  then show ?case by (cases rest) auto
next
  case (Cons c ds)
  then show ?case by (auto split: option.splits)
qed

lemma parseInt16_digits:
  assumes "ds \<noteq> []" and "\<forall>c \<in> set ds. hexDigit c \<noteq> None"
    and "rest = [] \<or> (hexDigit (hd rest) = None \<and> hd rest \<noteq> CHR ''x'' \<and> hd rest \<noteq> CHR ''X'')"
  shows "parseInt16 (ds @ rest) = Some (int (mathInt (map (the \<circ> hexDigit) ds)))"
proof -
  obtain c cs where ds: "ds = c # cs" using assms(1) by (cases ds) auto
  obtain x where x: "hexDigit c = Some x" using assms(2) ds by auto
  have ws: "dropWhile isWhiteSpace (ds @ rest) = ds @ rest"
    using hexDigit_plain(1)[OF x] ds by simp
  have sg: "stripSign (ds @ rest) = ds @ rest"
    using hexDigit_plain(2,3)[OF x] ds by (simp add: stripSign_def)
  have "take 2 (ds @ rest) \<noteq> ''0x'' \<and> take 2 (ds @ rest) \<noteq> ''0X''"
  proof (cases cs)
    case Nil
    then show ?thesis using assms(3) ds by (cases rest) auto
  next
    case (Cons e es)
    then obtain y where "hexDigit e = Some y" using assms(2) ds by auto
    then show ?thesis using hexDigit_plain(4,5) ds Cons by auto
  qed
  then have px: "stripPrefix (ds @ rest) = ds @ rest" by (simp add: stripPrefix_def)
  have hp: "hexPrefix (ds @ rest) = map (the \<circ> hexDigit) ds"
    using hexPrefix_digits[of ds rest] assms(2,3) by auto
  have hd: "hd (ds @ rest) \<noteq> CHR ''-''" using hexDigit_plain(3)[OF x] ds by simp
  have ne: "map (the \<circ> hexDigit) ds \<noteq> []" using assms(1) by simp
  show ?thesis
    unfolding parseInt16_def ws Let_def sg px hp using hd ne by simp
qed

lemma payload_field:
  assumes "length pre = 6" and "length ds \<le> 4"
  shows "substring 6 10 (pre @ ds @ rest) = ds @ take (4 - length ds) rest"
  using assms by (simp add: substring_def)

lemma payloadValue_leading_digits:
  assumes "length pre = 6" and "ds \<noteq> []" and "length ds \<le> 4"
    and "\<forall>c \<in> set ds. hexDigit c \<noteq> None"
    and "length ds < 4 \<longrightarrow>
         rest = [] \<or> (hexDigit (hd rest) = None \<and> hd rest \<noteq> CHR ''x'' \<and> hd rest \<noteq> CHR ''X'')"
  shows "payloadValue (pre @ ds @ rest) = int (mathInt (map (the \<circ> hexDigit) ds))"
proof -
  let ?r = "take (4 - length ds) rest"
  have "?r = [] \<or> (hexDigit (hd ?r) = None \<and> hd ?r \<noteq> CHR ''x'' \<and> hd ?r \<noteq> CHR ''X'')"
  proof (cases "length ds < 4")
    case True
    then show ?thesis using assms(5) by (cases rest) auto
  next
    case False
    then show ?thesis using assms(3) by simp
  qed
  then show ?thesis
    using parseInt16_digits[OF assms(2,4), of ?r] payload_field[OF assms(1,3)]
    by (simp add: payloadValue_def)
qed

lemma payloadValue_four_digits:
  assumes "length pre = 6"
    and "hexDigit a = Some x3" and "hexDigit b = Some x2"
    and "hexDigit c = Some x1" and "hexDigit e = Some x0"
  shows "payloadValue (pre @ [a, b, c, e] @ rest) = int (4096 * x3 + 256 * x2 + 16 * x1 + x0)"
  using payloadValue_leading_digits[OF assms(1), of "[a, b, c, e]" rest] assms(2-)
  by (simp add: mathInt_def)

lemma payloadValue_no_field:
  assumes "length line \<le> 6"
  shows "payloadValue line = 0"
  using assms
  by (simp add: payloadValue_def substring_def parseInt16_def stripSign_def stripPrefix_def)

lemma payloadValue_no_digit:
  assumes "length pre = 6" and "hexDigit c = None" and "\<not> isWhiteSpace c"
    and "c \<noteq> CHR ''+''" and "c \<noteq> CHR ''-''"
  shows "payloadValue (pre @ c # rest) = 0"
proof -
  have "c \<noteq> CHR ''0''" using assms(2) by (auto simp: hexDigit_def)
  then show ?thesis
    using assms
    by (simp add: payloadValue_def substring_def parseInt16_def stripSign_def stripPrefix_def)
qed

lemmas decode_defs =
  payloadValue_def parseInt16_def substring_def isWhiteSpace_def hexDigit_def mathInt_def
  stripSign_def stripPrefix_def

text \<open>
  Claim C4, as stated, fails: a payload that is too short, or that holds a character
  that is no hexadecimal digit, does not decode to 0 when it begins with hexadecimal
  digits. The line \<open>IDD14012\<close> carries the two-character payload \<open>12\<close> and decodes to
  18; the line \<open>IDD1401G00\<close> carries \<open>1G00\<close> and decodes to 1.
\<close>

theorem payloadValue_partial_field_counterexample:
  "length (substring 6 10 ''IDD14012'') < 4 \<and> payloadValue ''IDD14012'' = 18 \<and>
   hexDigit (CHR ''G'') = None \<and> payloadValue ''IDD1401G00'' = 1"
  by (simp add: decode_defs)

text \<open>
  Claim C4, amended. The payload is the field of up to four code units at offset 6, read
  by \<open>parseInt\<close> in base 16. Four hexadecimal digits decode to their exact base-16
  value. A field that begins with one to three hexadecimal digits and then ends, or
  goes on with a character that is neither a hexadecimal digit nor \<open>x\<close>, decodes to
  the value of those leading digits. The value is 0 when the line has no character at
  offset 6, and when the field begins with a character that is neither a hexadecimal
  digit, white space nor a sign. Decoding is a total function: there is no error.
\<close>

theorem payloadValue_decoding:
  "(length pre = 6 \<and> hexDigit a = Some x3 \<and> hexDigit b = Some x2 \<and>
    hexDigit c = Some x1 \<and> hexDigit e = Some x0 \<longrightarrow>
      payloadValue (pre @ [a, b, c, e] @ rest) = int (4096 * x3 + 256 * x2 + 16 * x1 + x0)) \<and>
   (length pre = 6 \<and> ds \<noteq> [] \<and> length ds < 4 \<and> (\<forall>c \<in> set ds. hexDigit c \<noteq> None) \<and>
    (rest = [] \<or> (hexDigit (hd rest) = None \<and> hd rest \<noteq> CHR ''x'' \<and> hd rest \<noteq> CHR ''X'')) \<longrightarrow>
      payloadValue (pre @ ds @ rest) = int (mathInt (map (the \<circ> hexDigit) ds))) \<and>
   (length line \<le> 6 \<longrightarrow> payloadValue line = 0) \<and>
   (length pre = 6 \<and> hexDigit c' = None \<and> \<not> isWhiteSpace c' \<and>
    c' \<noteq> CHR ''+'' \<and> c' \<noteq> CHR ''-'' \<longrightarrow>
      payloadValue (pre @ c' # rest') = 0)"
  using payloadValue_four_digits[of pre a x3 b x2 c x1 e x0 rest]
    payloadValue_leading_digits[of pre ds rest]
    payloadValue_no_field[of line]
    payloadValue_no_digit[of pre c' rest']
  by auto

theorem payloadValue_decoding_witness:
  "payloadValue ''IDD0880064'' = 100 \<and> payloadValue ''IDD0880A'' = 10 \<and>
   payloadValue ''IDD08'' = 0 \<and> payloadValue ''IDD088G064'' = 0"
  using payloadValue_decoding[of "''IDD088''" "CHR ''0''" 0 "CHR ''0''" 0 "CHR ''6''" 6 "CHR ''4''" 4
      "[]" "''0A''" "''IDD08''" "CHR ''G''" "''064''"]
  by (simp add: hexDigit_def isWhiteSpace_def mathInt_def)

section \<open>The dispatch of received lines\<close>

lemma startsWith_append: "startsWith s p \<longleftrightarrow> (\<exists>t. s = p @ t)"
proof
  assume "startsWith s p"
  then have "s = p @ drop (length p) s"
    by (metis append_take_drop_id startsWith_def)
  then show "\<exists>t. s = p @ t" ..
next
  assume "\<exists>t. s = p @ t"
  then show "startsWith s p" by (auto simp: startsWith_def)
qed

lemma onData_WR:
  assumes "startsWith stringData ''_WR_''"
  shows "onData now stringData s = send ''IV?'' s"
proof -
  obtain t where "stringData = ''_WR_'' @ t" using assms startsWith_append by blast
  then show ?thesis by (simp add: onData_def startsWith_def)
qed

lemma onData_IV4:
  assumes "startsWith stringData ''IV4''"
  shows "onData now stringData s = logFirmware stringData s"
proof -
  obtain t where "stringData = ''IV4'' @ t" using assms startsWith_append by blast
  then show ?thesis by (simp add: onData_def startsWith_def)
qed

lemma onData_SS:
  assumes "startsWith stringData ''SS''"
  shows "onData now stringData s = onStrokeStart now s"
proof -
  obtain t where "stringData = ''SS'' @ t" using assms startsWith_append by blast
  then show ?thesis by (simp add: onData_def startsWith_def)
qed

lemma onData_IDD088:
  assumes "startsWith stringData ''IDD088''"
  shows "onData now stringData s = send ''IRD140'' (parseAndPublishData now stringData ''power'' s)"
proof -
  obtain t where "stringData = ''IDD088'' @ t" using assms startsWith_append by blast
  then show ?thesis by (simp add: onData_def startsWith_def)
qed

lemma onData_IDD140:
  assumes "startsWith stringData ''IDD140''"
  shows "onData now stringData s = parseAndPublishData now stringData ''total_cycles'' s"
proof -
  obtain t where "stringData = ''IDD140'' @ t" using assms startsWith_append by blast
  then show ?thesis by (simp add: onData_def startsWith_def)
qed

lemma onData_IDD057:
  assumes "startsWith stringData ''IDD057''"
  shows "onData now stringData s = send ''IRD14A'' (parseAndPublishData now stringData ''distance'' s)"
proof -
  obtain t where "stringData = ''IDD057'' @ t" using assms startsWith_append by blast
  then show ?thesis by (simp add: onData_def startsWith_def)
qed

lemma onData_IDD14A:
  assumes "startsWith stringData ''IDD14A''"
  shows "onData now stringData s = parseAndPublishData now stringData ''speed'' s"
proof -
  obtain t where "stringData = ''IDD14A'' @ t" using assms startsWith_append by blast
  then show ?thesis by (simp add: onData_def startsWith_def)
qed

lemma onData_unmatched:
  assumes "\<forall>p \<in> set dispatchPrefixes. \<not> startsWith stringData p"
  shows "onData now stringData s = s"
  using assms by (simp add: onData_def dispatchPrefixes_def)




section \<open>What a received line does to the measurements\<close>

lemma findMetric_Some:
  assumes "findMetric h refs name = Some a"
  shows "a \<in> set refs" and "metric (h a) = name"
  using assms by (auto simp: findMetric_def find_Some_iff)

lemma send_proj:
  "heap (snd (send v s)) = heap (snd s)"
  "mqtt (snd (send v s)) = mqtt (snd s)"
  "measurements (fst (send v s)) = measurements (fst s)"
  "type (fst (send v s)) = type (fst s)"
  "lastStrokeTimestamp (fst (send v s)) = lastStrokeTimestamp (fst s)"
  by (cases s; simp add: send_def)+

lemma logFirmware_proj:
  "heap (snd (logFirmware x s)) = heap (snd s)"
  "mqtt (snd (logFirmware x s)) = mqtt (snd s)"
  "measurements (fst (logFirmware x s)) = measurements (fst s)"
  "type (fst (logFirmware x s)) = type (fst s)"
  "lastStrokeTimestamp (fst (logFirmware x s)) = lastStrokeTimestamp (fst s)"
  by (cases s; simp add: logFirmware_def)+

lemma startDistancePolling_proj:
  "heap (snd (startDistancePolling s)) = heap (snd s)"
  "mqtt (snd (startDistancePolling s)) = mqtt (snd s)"
  "measurements (fst (startDistancePolling s)) = measurements (fst s)"
  "type (fst (startDistancePolling s)) = type (fst s)"
  "lastStrokeTimestamp (fst (startDistancePolling s)) = lastStrokeTimestamp (fst s)"
  by (cases s; simp add: startDistancePolling_def)+

lemmas driver_proj = send_proj logFirmware_proj startDistancePolling_proj








lemma findMetric_heap_cong:
  assumes "\<And>x. metric (h' x) = metric (h x)"
  shows "findMetric h' refs name = findMetric h refs name"
  by (simp add: findMetric_def assms)

lemma storeAndPublish_found:
  assumes "findMetric (heap w) (measurements d) name = Some a"
  shows "storeAndPublish name v (d, w) = (d, publish (type d) a (setValue a v w))"
  using assms by (simp add: storeAndPublish_def)

lemma storeAndPublish_frame:
  "measurements (fst (storeAndPublish name v s)) = measurements (fst s)"
  "type (fst (storeAndPublish name v s)) = type (fst s)"
  "metric (heap (snd (storeAndPublish name v s)) x) = metric (heap (snd s) x)"
  "unit (heap (snd (storeAndPublish name v s)) x) = unit (heap (snd s) x)"
  by (cases s; simp add: storeAndPublish_def publish_def setValue_def split: option.splits)+

lemma storeAndPublish_other:
  assumes "metric (heap w a) \<noteq> name"
  shows "val (heap (snd (storeAndPublish name v (d, w))) a) = val (heap w a)"
proof (cases "findMetric (heap w) (measurements d) name")
  case None
  then show ?thesis by (simp add: storeAndPublish_def)
next
  case (Some b)
  then have "b \<noteq> a" using findMetric_Some(2)[OF Some] assms by auto
  then show ?thesis using Some by (simp add: storeAndPublish_def publish_def setValue_def)
qed

lemma storeAndPublish_value:
  assumes "findMetric (heap w) (measurements d) name = Some a"
  shows "val (heap (snd (storeAndPublish name v (d, w))) a) = v"
    and "mqtt (snd (storeAndPublish name v (d, w))) = mqtt w @ [(type d @ ''/'' @ name, v)]"
  using assms findMetric_Some(2)[OF assms]
  by (simp_all add: storeAndPublish_def publish_def setValue_def)

lemma speed_branch:
  "parseAndPublishData now data ''speed'' (d, w) =
     (if findMetric (heap w) (measurements d) ''speed'' = None then (d, w)
      else if payloadValue data \<noteq> 0
      then storeAndPublish ''split'' (js_div 50000 (of_int (payloadValue data)))
             (storeAndPublish ''speed'' (js_div (of_int (payloadValue data)) 100) (d, w))
      else storeAndPublish ''speed'' (js_div (of_int (payloadValue data)) 100) (d, w))"
  by (auto simp: parseAndPublishData_def storeAndPublish_def Let_def split: option.splits)

lemma cadence_branch:
  "parseAndPublishData now data ''cadence'' (d, w) =
     (if truthy (lastStrokeTimestamp d)
      then (case findMetric (heap w) (measurements d) ''cadence'' of
              None \<Rightarrow> (d, w)
            | Some a \<Rightarrow>
                (d\<lparr>lastStrokeTimestamp := Some now\<rparr>,
                 snd (storeAndPublish ''cadence''
                        (roundOneDecimal (js_div (60 * 1000)
                           (of_int (now - the (lastStrokeTimestamp d))))) (d, w))))
      else (d\<lparr>lastStrokeTimestamp := Some now\<rparr>, w))"
  by (auto simp: parseAndPublishData_def storeAndPublish_def Let_def split: option.splits)

lemma parseAndPublishData_frame:
  "measurements (fst (parseAndPublishData now data name s)) = measurements (fst s)"
  "type (fst (parseAndPublishData now data name s)) = type (fst s)"
  "metric (heap (snd (parseAndPublishData now data name s)) x) = metric (heap (snd s) x)"
  "unit (heap (snd (parseAndPublishData now data name s)) x) = unit (heap (snd s) x)"
proof -
  obtain d w where s: "s = (d, w)" by (cases s)
  have c: "name = ''speed'' \<or> name = ''cadence'' \<or> (name \<noteq> ''speed'' \<and> name \<noteq> ''cadence'')"
    by blast
  have other: "parseAndPublishData now data name (d, w) =
      (if name = ''distance'' \<or> name = ''power'' \<or> name = ''total_cycles''
       then storeAndPublish name (Fin (of_int (payloadValue data))) (d, w) else (d, w))"
    if "name \<noteq> ''speed''" and "name \<noteq> ''cadence''"
    using that by (auto simp: parseAndPublishData_def Let_def)
  show "measurements (fst (parseAndPublishData now data name s)) = measurements (fst s)"
    using c other unfolding s
    by (auto simp: speed_branch cadence_branch storeAndPublish_frame split: option.splits)
  show "type (fst (parseAndPublishData now data name s)) = type (fst s)"
    using c other unfolding s
    by (auto simp: speed_branch cadence_branch storeAndPublish_frame split: option.splits)
  show "metric (heap (snd (parseAndPublishData now data name s)) x) = metric (heap (snd s) x)"
    using c other unfolding s
    by (auto simp: speed_branch cadence_branch storeAndPublish_frame split: option.splits)
  show "unit (heap (snd (parseAndPublishData now data name s)) x) = unit (heap (snd s) x)"
    using c other unfolding s
    by (auto simp: speed_branch cadence_branch storeAndPublish_frame split: option.splits)
qed

lemma parseAndPublishData_other:
  assumes "metric (heap w a) = ''total_cycles''" and "name \<noteq> ''total_cycles''"
  shows "val (heap (snd (parseAndPublishData now data name (d, w))) a) = val (heap w a)"
proof -
  have m: "metric (heap w a) \<noteq> ''distance''" "metric (heap w a) \<noteq> ''power''"
    "metric (heap w a) \<noteq> ''speed''" "metric (heap w a) \<noteq> ''split''"
    "metric (heap w a) \<noteq> ''cadence''"
    using assms(1) by simp_all
  have sp: "val (heap (snd (storeAndPublish ''split'' u (storeAndPublish ''speed'' v (d, w)))) a) =
            val (heap w a)" for u v
  proof -
    obtain d1 w1 where s1: "storeAndPublish ''speed'' v (d, w) = (d1, w1)" by fastforce
    have "metric (heap w1 a) \<noteq> ''split''"
      using storeAndPublish_frame(3)[of "''speed''" v "(d, w)" a] s1 m(4) by simp
    then have "val (heap (snd (storeAndPublish ''split'' u (d1, w1))) a) = val (heap w1 a)"
      by (rule storeAndPublish_other)
    moreover have "val (heap w1 a) = val (heap w a)"
      using storeAndPublish_other[OF m(3), of v d] s1 by simp
    ultimately show ?thesis using s1 by simp
  qed
  consider "name = ''speed''" | "name = ''cadence''" | "name = ''distance''" | "name = ''power''"
    | "name \<notin> {''speed'', ''cadence'', ''distance'', ''power'', ''total_cycles''}"
    using assms(2) by blast
  then show ?thesis
  proof cases
    case 1
    then show ?thesis using sp storeAndPublish_other[OF m(3)] by (simp add: speed_branch)
  next
    case 2
    then show ?thesis
      using storeAndPublish_other[OF m(5)]
      by (simp add: cadence_branch split: option.splits)
  next
    case 3
    then show ?thesis
      using storeAndPublish_other[OF m(1)] by (simp add: parseAndPublishData_def Let_def)
  next
    case 4
    then show ?thesis
      using storeAndPublish_other[OF m(2)] by (simp add: parseAndPublishData_def Let_def)
  next
    case 5
    then show ?thesis by (simp add: parseAndPublishData_def Let_def)
  qed
qed

lemma onData_shape:
  "onData now stringData s = s \<or>
   (\<exists>v. onData now stringData s = send v s) \<or>
   onData now stringData s = logFirmware stringData s \<or>
   (startsWith stringData ''SS'' \<and>
    onData now stringData s =
      startDistancePolling (send ''IRD088'' (parseAndPublishData now [] ''cadence'' s))) \<or>
   (startsWith stringData ''IDD088'' \<and>
    onData now stringData s = send ''IRD140'' (parseAndPublishData now stringData ''power'' s)) \<or>
   (startsWith stringData ''IDD140'' \<and>
    onData now stringData s = parseAndPublishData now stringData ''total_cycles'' s) \<or>
   (startsWith stringData ''IDD057'' \<and>
    onData now stringData s = send ''IRD14A'' (parseAndPublishData now stringData ''distance'' s)) \<or>
   (startsWith stringData ''IDD14A'' \<and>
    onData now stringData s = parseAndPublishData now stringData ''speed'' s)"
proof -
  consider "startsWith stringData ''_WR_''" | "startsWith stringData ''IV4''"
    | "startsWith stringData ''SS''" | "startsWith stringData ''IDD088''"
    | "startsWith stringData ''IDD140''" | "startsWith stringData ''IDD057''"
    | "startsWith stringData ''IDD14A''"
    | "\<forall>p \<in> set dispatchPrefixes. \<not> startsWith stringData p"
    by (auto simp: dispatchPrefixes_def)
  then show ?thesis
  proof cases
    case 1 then show ?thesis using onData_WR by blast
  next
    case 2 then show ?thesis using onData_IV4 by blast
  next
    case 3 then show ?thesis using onData_SS[OF 3] by (simp add: onStrokeStart_def)
  next
    case 4 then show ?thesis using onData_IDD088 by blast
  next
    case 5 then show ?thesis using onData_IDD140 by blast
  next
    case 6 then show ?thesis using onData_IDD057 by blast
  next
    case 7 then show ?thesis using onData_IDD14A by blast
  next
    case 8 then show ?thesis using onData_unmatched by blast
  qed
qed

lemma onData_frame:
  "measurements (fst (onData now stringData s)) = measurements (fst s)"
  "type (fst (onData now stringData s)) = type (fst s)"
  "metric (heap (snd (onData now stringData s)) x) = metric (heap (snd s) x)"
  "unit (heap (snd (onData now stringData s)) x) = unit (heap (snd s) x)"
  using onData_shape[of now stringData s]
  by (auto simp: driver_proj parseAndPublishData_frame)

lemma onData_findMetric:
  assumes "onData now stringData (d, w) = (d', w')"
  shows "findMetric (heap w') (measurements d') name = findMetric (heap w) (measurements d) name"
proof -
  have "measurements d' = measurements d"
    using onData_frame(1)[of now stringData "(d, w)"] assms by simp
  moreover have "\<And>x. metric (heap w' x) = metric (heap w x)"
    using onData_frame(3)[of now stringData "(d, w)"] assms by simp
  ultimately show ?thesis using findMetric_heap_cong[of "heap w'" "heap w"] by simp
qed

lemma onData_total_cycles:
  assumes "findMetric (heap w) (measurements d) ''total_cycles'' = Some a"
    and "onData now stringData (d, w) = (d', w')"
  shows "val (heap w' a) =
           (if startsWith stringData ''IDD140'' then Fin (of_int (payloadValue stringData))
            else val (heap w a))"
proof (cases "startsWith stringData ''IDD140''")
  case True
  have "parseAndPublishData now stringData ''total_cycles'' (d, w) =
        storeAndPublish ''total_cycles'' (Fin (of_int (payloadValue stringData))) (d, w)"
    by (simp add: parseAndPublishData_def Let_def)
  moreover have "w' = snd (onData now stringData (d, w))" using assms(2) by simp
  ultimately show ?thesis
    using True onData_IDD140[OF True, of now "(d, w)"]
      storeAndPublish_value(1)[OF assms(1), of "Fin (of_int (payloadValue stringData))"]
    by simp
next
  case False
  have m: "metric (heap w a) = ''total_cycles''" using findMetric_Some(2)[OF assms(1)] .
  have o: "\<And>name. name \<noteq> ''total_cycles'' \<Longrightarrow>
      val (heap (snd (parseAndPublishData now data name (d, w))) a) = val (heap w a)" for data
    using parseAndPublishData_other[OF m] by blast
  have "val (heap (snd (onData now stringData (d, w))) a) = val (heap w a)"
    using onData_shape[of now stringData "(d, w)"] False
    by (auto simp: driver_proj o)
  then show ?thesis using False assms(2) by simp
qed

text \<open>
  Claim C3. On a line that begins with \<open>IDD14A\<close>, with decoded value \<open>v\<close>, received
  by a driver that has its speed and split measurements: the speed measurement becomes
  \<open>v / 100\<close> and is published on \<open>type/speed\<close>; when \<open>v\<close> is not 0 the split
  measurement becomes \<open>50000 / v\<close> and is published next, on \<open>type/split\<close>; when
  \<open>v\<close> is 0 the split measurement keeps its value and only the speed is published.
\<close>

theorem pace_response_speed_and_split:
  assumes "startsWith stringData ''IDD14A''"
    and "findMetric (heap w) (measurements d) ''speed'' = Some a"
    and "findMetric (heap w) (measurements d) ''split'' = Some b"
    and "onData now stringData (d, w) = (d', w')"
    and "v = payloadValue stringData"
  shows "val (heap w' a) = Fin (of_int v / 100) \<and>
         (v \<noteq> 0 \<longrightarrow>
            val (heap w' b) = Fin (50000 / of_int v) \<and>
            mqtt w' = mqtt w @ [(type d @ ''/speed'', Fin (of_int v / 100)),
                                (type d @ ''/split'', Fin (50000 / of_int v))]) \<and>
         (v = 0 \<longrightarrow>
            val (heap w' b) = val (heap w b) \<and>
            mqtt w' = mqtt w @ [(type d @ ''/speed'', Fin 0)])"
proof -
  let ?y = "js_div (of_int v) 100"
  let ?x = "js_div 50000 (of_int v)"
  have y: "?y = Fin (of_int v / 100)" by (simp add: js_div_def)
  have ma: "metric (heap w a) = ''speed''" and mb: "metric (heap w b) = ''split''"
    using findMetric_Some(2) assms(2,3) by blast+
  obtain w1 where s1: "storeAndPublish ''speed'' ?y (d, w) = (d, w1)"
    using storeAndPublish_found[OF assms(2)] by simp
  have a1: "val (heap w1 a) = ?y" and q1: "mqtt w1 = mqtt w @ [(type d @ ''/speed'', ?y)]"
    using storeAndPublish_value[OF assms(2), of ?y] s1 by simp_all
  have b1: "val (heap w1 b) = val (heap w b)"
    using storeAndPublish_other[of w b "''speed''" ?y d] mb s1 by simp
  have "snd (onData now stringData (d, w)) = w'" using assms(4) by simp
  then have w': "w' = snd (parseAndPublishData now stringData ''speed'' (d, w))"
    using onData_IDD14A[OF assms(1), of now "(d, w)"] by simp
  show ?thesis
  proof (cases "v = 0")
    case True
    then have "w' = w1" using w' assms(2,5) s1 by (simp add: speed_branch)
    then show ?thesis using True a1 q1 b1 y by simp
  next
    case False
    have x: "?x = Fin (50000 / of_int v)" using False by (simp add: js_div_def)
    have m1: "\<And>z. metric (heap w1 z) = metric (heap w z)"
      using storeAndPublish_frame(3)[of "''speed''" ?y "(d, w)"] s1 by simp
    have f1: "findMetric (heap w1) (measurements d) ''split'' = Some b"
      using findMetric_heap_cong[of "heap w1" "heap w", OF m1] assms(3) by simp
    have w2: "w' = snd (storeAndPublish ''split'' ?x (d, w1))"
      using w' False assms(2,5) s1 by (simp add: speed_branch)
    have "val (heap w' b) = ?x" and "mqtt w' = mqtt w1 @ [(type d @ ''/split'', ?x)]"
      using storeAndPublish_value[OF f1, of ?x] w2 by simp_all
    moreover have "val (heap w' a) = val (heap w1 a)"
      using storeAndPublish_other[of w1 a "''split''" ?x d] m1[of a] ma w2 by simp
    ultimately show ?thesis using False a1 q1 x y by simp
  qed
qed

lemmas eval_defs =
  onData_def startsWith_def parseAndPublishData_def storeAndPublish_def truthy_def Let_def
  findMetric_def initialWorld_def initialStore_def waterRower_def newMeasurement_def send_def
  startDistancePolling_def onStrokeStart_def logFirmware_def publish_def setValue_def js_div_def

theorem pace_response_speed_and_split_witness:
  "startsWith ''IDD14A00FA'' ''IDD14A'' \<and> payloadValue ''IDD14A00FA'' = 250 \<and>
   startsWith ''IDD14A0000'' ''IDD14A'' \<and> payloadValue ''IDD14A0000'' = 0 \<and>
   findMetric (heap initialWorld) (measurements waterRower) ''speed'' = Some 3 \<and>
   findMetric (heap initialWorld) (measurements waterRower) ''split'' = Some 5 \<and>
   val (heap (snd (onData 0 ''IDD14A00FA'' (waterRower, initialWorld))) 3) = Fin (5 / 2) \<and>
   val (heap (snd (onData 0 ''IDD14A00FA'' (waterRower, initialWorld))) 5) = Fin 200 \<and>
   mqtt (snd (onData 0 ''IDD14A00FA'' (waterRower, initialWorld))) =
     [(''waterrower/speed'', Fin (5 / 2)), (''waterrower/split'', Fin 200)] \<and>
   val (heap (snd (onData 0 ''IDD14A0000'' (waterRower, initialWorld))) 5) = val (heap initialWorld 5) \<and>
   mqtt (snd (onData 0 ''IDD14A0000'' (waterRower, initialWorld))) = [(''waterrower/speed'', Fin 0)]"
proof -
  obtain d' w' where o: "onData 0 ''IDD14A00FA'' (waterRower, initialWorld) = (d', w')"
    by fastforce
  obtain d0 w0 where o0: "onData 0 ''IDD14A0000'' (waterRower, initialWorld) = (d0, w0)"
    by fastforce
  have s: "startsWith ''IDD14A00FA'' ''IDD14A''" "startsWith ''IDD14A0000'' ''IDD14A''"
    by (simp_all add: startsWith_def)
  have v: "payloadValue ''IDD14A00FA'' = 250" "payloadValue ''IDD14A0000'' = 0"
    by (simp_all add: decode_defs)
  have f: "findMetric (heap initialWorld) (measurements waterRower) ''speed'' = Some 3"
    "findMetric (heap initialWorld) (measurements waterRower) ''split'' = Some 5"
    by (simp_all add: findMetric_def initialWorld_def initialStore_def waterRower_def
        newMeasurement_def)
  have a: "val (heap w' 3) = Fin (5 / 2) \<and> val (heap w' 5) = Fin 200 \<and>
      mqtt w' = [(''waterrower/speed'', Fin (5 / 2)), (''waterrower/split'', Fin 200)]"
    using pace_response_speed_and_split[OF s(1) f o, of 250] v(1)
    by (simp add: waterRower_def initialWorld_def)
  have b: "val (heap w0 5) = val (heap initialWorld 5) \<and> mqtt w0 = [(''waterrower/speed'', Fin 0)]"
    using pace_response_speed_and_split[OF s(2) f o0, of 0] v(2)
    by (simp add: waterRower_def initialWorld_def)
  show ?thesis using a b s v f o o0 by simp
qed

section \<open>The stroke count over a run of received lines\<close>

lemma cycles_trace:
  assumes "findMetric (heap w) (measurements d) ''total_cycles'' = Some a"
    and "val (heap w a) = Fin (of_int c0)"
    and "sorted (c0 # map (payloadValue \<circ> snd)
                      (filter (\<lambda>e. startsWith (snd e) ''IDD140'') events))"
  shows "sorted_wrt number_le (map (\<lambda>s. val (heap (snd s) a)) (states events (d, w))) \<and>
         (\<forall>x \<in> set (map (\<lambda>s. val (heap (snd s) a)) (states events (d, w))).
            \<exists>c \<ge> c0. x = Fin (of_int c))"
  using assms
proof (induction events arbitrary: d w c0)
  case Nil
  then show ?case by simp
next
  case (Cons e rest)
  obtain now line where e: "e = (now, line)" by (cases e)
  obtain d' w' where o: "onData now line (d, w) = (d', w')" by fastforce
  define c1 where "c1 = (if startsWith line ''IDD140'' then payloadValue line else c0)"
  have f': "findMetric (heap w') (measurements d') ''total_cycles'' = Some a"
    using onData_findMetric[OF o] Cons.prems(1) by simp
  have v': "val (heap w' a) = Fin (of_int c1)"
    using onData_total_cycles[OF Cons.prems(1) o] Cons.prems(2) by (simp add: c1_def)
  have le: "c0 \<le> c1" using Cons.prems(3) e by (auto simp: c1_def comp_def)
  have srt: "sorted (c1 # map (payloadValue \<circ> snd)
                          (filter (\<lambda>e. startsWith (snd e) ''IDD140'') rest))"
    using Cons.prems(3) e by (auto simp: c1_def comp_def)
  note ih = Cons.IH[OF f' v' srt]
  let ?tail = "map (\<lambda>s. val (heap (snd s) a)) (states rest (d', w'))"
  have st: "map (\<lambda>s. val (heap (snd s) a)) (states (e # rest) (d, w)) = Fin (of_int c1) # ?tail"
    using e o v' by simp
  have "\<forall>x \<in> set ?tail. number_le (Fin (of_int c1)) x"
    using ih by fastforce
  moreover have "\<forall>x \<in> set (Fin (of_int c1) # ?tail). \<exists>c \<ge> c0. x = Fin (of_int c)"
    using ih le by fastforce
  ultimately show ?case unfolding st using ih by simp
qed

text \<open>
  Claim C8, as stated, fails: the driver stores whatever count a line reports. From the
  initial state, where reference 2 is the \<open>total_cycles\<close> object, the lines
  \<open>IDD1400005\<close> and \<open>IDD1400003\<close> take the value to 5 and then down to 3.
\<close>

theorem total_cycles_decreases_counterexample:
  "findMetric (heap initialWorld) (measurements waterRower) ''total_cycles'' = Some 2 \<and>
   map (\<lambda>s. val (heap (snd s) 2))
       (states [(0, ''IDD1400005''), (1, ''IDD1400003'')] (waterRower, initialWorld)) =
     [Fin 5, Fin 3] \<and>
   \<not> number_le (Fin 5) (Fin 3)"
  by (simp add: eval_defs decode_defs)

text \<open>
  Claim C8, amended. The driver mirrors the console's counter: a line that begins with
  \<open>IDD140\<close> sets \<open>total_cycles\<close> to the decoded payload of that line, whatever the
  value before, and no other line changes it. So over any sequence of received lines
  the value never decreases provided the counts the console reports (the payloads of
  the \<open>IDD140\<close> lines, in order) never decrease and start no lower than the value at
  the beginning.
\<close>

theorem total_cycles_follows_console:
  assumes "findMetric (heap w) (measurements d) ''total_cycles'' = Some a"
  shows "(\<forall>now stringData d' w'.
            onData now stringData (d, w) = (d', w') \<longrightarrow>
            val (heap w' a) =
              (if startsWith stringData ''IDD140'' then Fin (of_int (payloadValue stringData))
               else val (heap w a))) \<and>
         (val (heap w a) = Fin (of_int c0) \<and>
          sorted (c0 # map (payloadValue \<circ> snd)
                        (filter (\<lambda>e. startsWith (snd e) ''IDD140'') events)) \<longrightarrow>
          sorted_wrt number_le
            (map (\<lambda>s. val (heap (snd s) a)) ((d, w) # states events (d, w))))"
proof (intro conjI allI impI)
  fix now stringData d' w'
  assume "onData now stringData (d, w) = (d', w')"
  then show "val (heap w' a) =
      (if startsWith stringData ''IDD140'' then Fin (of_int (payloadValue stringData))
       else val (heap w a))"
    using onData_total_cycles[OF assms] by blast
next
  assume h: "val (heap w a) = Fin (of_int c0) \<and>
      sorted (c0 # map (payloadValue \<circ> snd)
                    (filter (\<lambda>e. startsWith (snd e) ''IDD140'') events))"
  note t = cycles_trace[OF assms h[THEN conjunct1] h[THEN conjunct2]]
  have "\<forall>x \<in> set (map (\<lambda>s. val (heap (snd s) a)) (states events (d, w))).
          number_le (val (heap w a)) x"
    using t h by fastforce
  then show "sorted_wrt number_le
      (map (\<lambda>s. val (heap (snd s) a)) ((d, w) # states events (d, w)))"
    using t by simp
qed

theorem total_cycles_follows_console_witness:
  "findMetric (heap initialWorld) (measurements waterRower) ''total_cycles'' = Some 2 \<and>
   val (heap initialWorld 2) = Fin (of_int 0) \<and>
   sorted (0 # map (payloadValue \<circ> snd)
                (filter (\<lambda>e. startsWith (snd e) ''IDD140'')
                   [(0::int, ''SS''), (1, ''IDD1400005''), (2, ''IDD1400006'')])) \<and>
   val (heap (snd (onData 1 ''IDD1400005'' (waterRower, initialWorld))) 2) = Fin 5 \<and>
   sorted_wrt number_le
     (map (\<lambda>s. val (heap (snd s) 2))
        ((waterRower, initialWorld) #
         states [(0, ''SS''), (1, ''IDD1400005''), (2, ''IDD1400006'')] (waterRower, initialWorld)))"
proof -
  have f: "findMetric (heap initialWorld) (measurements waterRower) ''total_cycles'' = Some 2"
    by (simp add: findMetric_def initialWorld_def initialStore_def waterRower_def
        newMeasurement_def)
  have v: "val (heap initialWorld 2) = Fin (of_int 0)"
    by (simp add: initialWorld_def initialStore_def newMeasurement_def)
  have s: "sorted (0 # map (payloadValue \<circ> snd)
                (filter (\<lambda>e. startsWith (snd e) ''IDD140'')
                   [(0::int, ''SS''), (1, ''IDD1400005''), (2, ''IDD1400006'')]))"
    by (simp add: startsWith_def decode_defs)
  have p: "startsWith ''IDD1400005'' ''IDD140''" "payloadValue ''IDD1400005'' = 5"
    by (simp_all add: startsWith_def decode_defs)
  obtain d' w' where o: "onData 1 ''IDD1400005'' (waterRower, initialWorld) = (d', w')"
    by fastforce
  note t = total_cycles_follows_console[OF f, of 0
      "[(0, ''SS''), (1, ''IDD1400005''), (2, ''IDD1400006'')]"]
  have "val (heap w' 2) = Fin 5"
    using t[THEN conjunct1, rule_format, OF o] p by simp
  then have "val (heap (snd (onData 1 ''IDD1400005'' (waterRower, initialWorld))) 2) = Fin 5"
    using o by simp
  moreover note t[THEN conjunct2, rule_format, OF conjI[OF v s]]
  ultimately show ?thesis
    using f v s by blast
qed

section \<open>Starting and stopping the recorder\<close>

lemma writeChunk_proj:
  "heap (writeChunk f c w) = heap w"
  "intervals (writeChunk f c w) = intervals w"
  "length (streams (writeChunk f c w)) = length (streams w)"
  "console (writeChunk f c w) = console w"
  by (simp_all add: writeChunk_def)

lemma openFile_proj:
  "recordingInterval (fst (openFile now (r, w))) = recordingInterval r"
  "measurements_r (fst (openFile now (r, w))) = measurements_r r"
  "sportingDevices (fst (openFile now (r, w))) = sportingDevices r"
  "fileWriter (fst (openFile now (r, w))) = Some (length (streams w))"
  "heap (snd (openFile now (r, w))) = heap w"
  "intervals (snd (openFile now (r, w))) = intervals w"
  "length (streams (snd (openFile now (r, w)))) = Suc (length (streams w))"
  by (simp_all add: openFile_def Let_def writeChunk_proj)

lemma subscribeAll_proj:
  "heap (subscribeAll ds w) = heap w"
  "intervals (subscribeAll ds w) = intervals w"
  "streams (subscribeAll ds w) = streams w"
  by (simp_all add: subscribeAll_def)

lemma consoleLog_proj:
  "heap (consoleLog l w) = heap w"
  "intervals (consoleLog l w) = intervals w"
  "streams (consoleLog l w) = streams w"
  by (simp_all add: consoleLog_def)

lemma start_running:
  assumes "recordingInterval r \<noteq> None"
  shows "start now (r, w) = (r, w)"
  using assms by (auto simp: start_def)

lemma start_fresh:
  assumes "recordingInterval r = None" and "start now (r, w) = (r1, w1)"
  shows "recordingInterval r1 = Some (length (intervals w))"
    and "fileWriter r1 = Some (length (streams w))"
    and "intervals w1 = intervals w @ [(1000, True)]"
    and "length (streams w1) = Suc (length (streams w))"
    and "heap w1 = heap w"
    and "measurements_r r1 = measurements_r r"
proof -
  let ?w0 = "subscribeAll (sportingDevices r) (consoleLog ''Starting new session'' w)"
  obtain r2 w2 where o: "openFile now (r, ?w0) = (r2, w2)" by fastforce
  have s: "r1 = r2\<lparr>recordingInterval := Some (length (intervals w2))\<rparr>"
    "w1 = w2\<lparr>intervals := intervals w2 @ [(1000, True)]\<rparr>"
    using assms o by (simp_all add: start_def)
  have p: "fileWriter r2 = Some (length (streams ?w0))" "heap w2 = heap ?w0"
    "intervals w2 = intervals ?w0" "length (streams w2) = Suc (length (streams ?w0))"
    "measurements_r r2 = measurements_r r"
    using openFile_proj[of now r ?w0] o by simp_all
  show "recordingInterval r1 = Some (length (intervals w))"
    and "fileWriter r1 = Some (length (streams w))"
    and "intervals w1 = intervals w @ [(1000, True)]"
    and "length (streams w1) = Suc (length (streams w))"
    and "heap w1 = heap w"
    and "measurements_r r1 = measurements_r r"
    using s p by (simp_all add: subscribeAll_proj consoleLog_proj)
qed

text \<open>
  Claim C6. \<open>start\<close> on a recorder whose session is open (its timer handle is set)
  returns the recorder and the world unchanged. On a recorder with no open session it
  opens one stream and starts one timer of 1000 ms, and a second \<open>start\<close> right
  after it, at any clock reading, changes nothing: one file and one timer in all.
\<close>

theorem start_twice_opens_one_session:
  "(recordingInterval r \<noteq> None \<longrightarrow> start now (r, w) = (r, w)) \<and>
   (recordingInterval r = None \<longrightarrow>
      (\<exists>r1 w1. start now (r, w) = (r1, w1) \<and>
               start later (r1, w1) = (r1, w1) \<and>
               length (streams w1) = Suc (length (streams w)) \<and>
               fileWriter r1 = Some (length (streams w)) \<and>
               intervals w1 = intervals w @ [(1000, True)] \<and>
               recordingInterval r1 = Some (length (intervals w))))"
proof (intro conjI impI)
  assume "recordingInterval r \<noteq> None"
  then show "start now (r, w) = (r, w)" by (rule start_running)
next
  assume n: "recordingInterval r = None"
  obtain r1 w1 where o: "start now (r, w) = (r1, w1)" by fastforce
  note f = start_fresh[OF n o]
  have "start later (r1, w1) = (r1, w1)" using f(1) by (simp add: start_running)
  then show "\<exists>r1 w1. start now (r, w) = (r1, w1) \<and>
               start later (r1, w1) = (r1, w1) \<and>
               length (streams w1) = Suc (length (streams w)) \<and>
               fileWriter r1 = Some (length (streams w)) \<and>
               intervals w1 = intervals w @ [(1000, True)] \<and>
               recordingInterval r1 = Some (length (intervals w))"
    using o f by blast
qed

theorem start_twice_opens_one_session_witness:
  "recordingInterval (activityRecorder 0) = None \<and>
   start 2000 (start 1000 (activityRecorder 0, initialWorld)) =
     start 1000 (activityRecorder 0, initialWorld) \<and>
   length (streams (snd (start 2000 (start 1000 (activityRecorder 0, initialWorld))))) = 1 \<and>
   intervals (snd (start 2000 (start 1000 (activityRecorder 0, initialWorld)))) = [(1000, True)]"
proof -
  have n: "recordingInterval (activityRecorder 0) = None"
    by (simp add: activityRecorder_def newActivityRecorder_def)
  have i: "intervals initialWorld = []" "streams initialWorld = []"
    by (simp_all add: initialWorld_def)
  from start_twice_opens_one_session[of "activityRecorder 0" 1000 initialWorld 2000] n
  obtain r1 w1 where "start 1000 (activityRecorder 0, initialWorld) = (r1, w1)"
    and "start 2000 (r1, w1) = (r1, w1)"
    and "length (streams w1) = Suc (length (streams initialWorld))"
    and "intervals w1 = intervals initialWorld @ [(1000, True)]"
    by blast
  then show ?thesis using n i by simp
qed

lemma writeChunk_stream:
  assumes "f < length (streams w)"
  shows "written (streams (writeChunk f c w) ! f) = written (streams w ! f) @ [c]"
    and "closed (streams (writeChunk f c w) ! f) = closed (streams w ! f)"
    and "map closed (streams (writeChunk f c w)) = map closed (streams w)"
  using assms by (simp_all add: writeChunk_def map_update list_update_same_conv)

lemma openFile_stream:
  "length (written (streams (snd (openFile now (r, w))) ! length (streams w))) = 6"
  "map closed (streams (snd (openFile now (r, w)))) = map closed (streams w) @ [False]"
proof -
  let ?w0 = "w\<lparr>streams := streams w @ [\<lparr>createdAt = now, written = [], closed = False\<rparr>]\<rparr>"
  have l: "length (streams w) < length (streams ?w0)" by simp
  have z: "written (streams ?w0 ! length (streams w)) = []"
    "map closed (streams ?w0) = map closed (streams w) @ [False]" by simp_all
  show "length (written (streams (snd (openFile now (r, w))) ! length (streams w))) = 6"
    unfolding openFile_def Let_def prod.case snd_conv
    using l z(1) by (simp add: writeChunk_stream writeChunk_proj del: list.map)
  show "map closed (streams (snd (openFile now (r, w)))) = map closed (streams w) @ [False]"
    unfolding openFile_def Let_def prod.case snd_conv
    using l z(2) by (simp add: writeChunk_stream writeChunk_proj)
qed

lemma start_fresh_stream:
  assumes "recordingInterval r = None" and "start now (r, w) = (r1, w1)"
  shows "length (written (streams w1 ! length (streams w))) = 6"
    and "map closed (streams w1) = map closed (streams w) @ [False]"
proof -
  let ?w0 = "subscribeAll (sportingDevices r) (consoleLog ''Starting new session'' w)"
  obtain r2 w2 where o: "openFile now (r, ?w0) = (r2, w2)" by fastforce
  have s: "streams w1 = streams w2" using assms o by (auto simp: start_def)
  have l: "streams ?w0 = streams w" by (simp add: subscribeAll_proj consoleLog_proj)
  show "length (written (streams w1 ! length (streams w))) = 6"
    and "map closed (streams w1) = map closed (streams w) @ [False]"
    using openFile_stream[of now r ?w0] o s l by simp_all
qed

lemma clearInterval_proj:
  "heap (clearInterval t w) = heap w"
  "streams (clearInterval t w) = streams w"
  by (simp_all add: clearInterval_def)

lemma stop_program_no_stream:
  assumes "fileWriter r = None"
  shows "snd (stop_program now (r, w)) = Some TypeError"
  using assms by (simp add: stop_program_def Let_def)

lemma stop_program_open:
  assumes "fileWriter r = Some f" and "f < length (streams w)"
    and "findMetric (heap w) (measurements_r r) ''distance'' = Some a"
    and "findMetric (heap w) (measurements_r r) ''total_cycles'' = Some b"
  shows "\<exists>r' w'. stop_program now (r, w) = ((r', w'), None) \<and>
           recordingInterval r' = None \<and> fileWriter r' = Some f \<and>
           measurements_r r' = measurements_r r \<and> heap w' = heap w \<and>
           length (streams w') = length (streams w) \<and>
           map closed (streams w') = map closed (streams w) \<and>
           length (written (streams w' ! f)) = length (written (streams w ! f)) + 6 \<and>
           intervals w' =
             (case recordingInterval r of None \<Rightarrow> intervals w | Some t \<Rightarrow> intervals (clearInterval t w))"
proof -
  let ?w1 = "consoleLog ''Finalizing workout file''
               (case recordingInterval r of None \<Rightarrow> w | Some t \<Rightarrow> clearInterval t w)"
  have s1: "streams ?w1 = streams w" "heap ?w1 = heap w"
    "intervals ?w1 =
       (case recordingInterval r of None \<Rightarrow> intervals w | Some t \<Rightarrow> intervals (clearInterval t w))"
    by (simp_all add: consoleLog_proj clearInterval_proj split: option.splits)
  have l: "f < length (streams ?w1)" using assms(2) s1 by simp
  show ?thesis
    unfolding stop_program_def Let_def prod.case
    using assms(1,3,4) l s1
    by (simp add: writeChunk_stream writeChunk_proj del: list.map)
qed

lemmas program_defs =
  activityRecorder_def newActivityRecorder_def heartRateMonitor_def waterRower_def
  SportingDevice.truncate_def initialWorld_def initialStore_def newMeasurement_def
  findMetric_def

text \<open>
  Claim C5 against the code. The recorder of the program is started at clock reading
  1000 and then stopped. With \<open>stop\<close> of the module nothing happens at all: the timer
  still runs, nothing is written after the six header chunks, and the stream is open.
  With \<open>stop\<close> of the single-file program the timer is cancelled and the six summary
  chunks are written, but the stream stays open; a second call does not return early:
  it writes the six summary chunks again; and a call with no open session throws.
\<close>

theorem stop_does_not_close_the_stream:
  "(\<exists>r1 w1 r2 w2 r3 w3.
      start 1000 (activityRecorder 0, initialWorld) = (r1, w1) \<and>
      recordingInterval r1 = Some 0 \<and> intervals w1 = [(1000, True)] \<and>
      map closed (streams w1) = [False] \<and> length (written (streams w1 ! 0)) = 6 \<and>
      stop True (r1, w1) = (r1, w1) \<and>
      stop_program 5000 (r1, w1) = ((r2, w2), None) \<and>
      recordingInterval r2 = None \<and> intervals w2 = [(1000, False)] \<and>
      map closed (streams w2) = [False] \<and> length (written (streams w2 ! 0)) = 12 \<and>
      stop_program 6000 (r2, w2) = ((r3, w3), None) \<and>
      map closed (streams w3) = [False] \<and> length (written (streams w3 ! 0)) = 18) \<and>
   snd (stop_program 5000 (activityRecorder 0, initialWorld)) = Some TypeError"
proof -
  let ?r0 = "activityRecorder 0"
  have n: "recordingInterval ?r0 = None" "fileWriter ?r0 = None"
    "measurements_r ?r0 = [6, 0, 1, 2, 3, 4, 5]"
    by (simp_all add: program_defs)
  have i: "intervals initialWorld = []" "streams initialWorld = []"
    by (simp_all add: initialWorld_def)
  obtain r1 w1 where o1: "start 1000 (?r0, initialWorld) = (r1, w1)" by fastforce
  note f1 = start_fresh[OF n(1) o1] start_fresh_stream[OF n(1) o1]
  have p1: "recordingInterval r1 = Some 0" "intervals w1 = [(1000, True)]"
    "map closed (streams w1) = [False]" "length (written (streams w1 ! 0)) = 6"
    "fileWriter r1 = Some 0" "0 < length (streams w1)"
    using f1 i by simp_all
  have m1: "findMetric (heap w1) (measurements_r r1) ''distance'' = Some 0"
    "findMetric (heap w1) (measurements_r r1) ''total_cycles'' = Some 2"
    using f1(5,6) n(3) by (simp_all add: program_defs)
  from stop_program_open[OF p1(5,6) m1, of 5000]
  obtain r2 w2 where o2: "stop_program 5000 (r1, w1) = ((r2, w2), None)"
    and p2: "recordingInterval r2 = None" "fileWriter r2 = Some 0"
      "measurements_r r2 = measurements_r r1" "heap w2 = heap w1"
      "length (streams w2) = length (streams w1)"
      "map closed (streams w2) = map closed (streams w1)"
      "length (written (streams w2 ! 0)) = length (written (streams w1 ! 0)) + 6"
      "intervals w2 =
         (case recordingInterval r1 of None \<Rightarrow> intervals w1 | Some t \<Rightarrow> intervals (clearInterval t w1))"
    by blast
  have q2: "intervals w2 = [(1000, False)]" using p2(8) p1(1,2) by (simp add: clearInterval_def)
  have l2: "0 < length (streams w2)" using p2(5) p1(6) by simp
  have m2: "findMetric (heap w2) (measurements_r r2) ''distance'' = Some 0"
    "findMetric (heap w2) (measurements_r r2) ''total_cycles'' = Some 2"
    using m1 p2(3,4) by simp_all
  from stop_program_open[OF p2(2) l2 m2, of 6000]
  obtain r3 w3 where o3: "stop_program 6000 (r2, w2) = ((r3, w3), None)"
    and p3: "map closed (streams w3) = map closed (streams w2)"
      "length (written (streams w3 ! 0)) = length (written (streams w2 ! 0)) + 6"
    by blast
  have "stop True (r1, w1) = (r1, w1)" by (simp add: stop_def)
  moreover have "snd (stop_program 5000 (?r0, initialWorld)) = Some TypeError"
    using stop_program_no_stream[OF n(2)] .
  ultimately show ?thesis
    using o1 p1 o2 p2 q2 o3 p3 by simp
qed

section \<open>The row written on a tick\<close>

lemma recordedFields_Cons:
  "recordedFields h refs (x # ids) = recordedFields h refs [x] @ recordedFields h refs ids"
  by (simp add: recordedFields_def map_filter_simps split: option.splits)

lemma writeChunk_streams:
  "streams (writeChunk f c w) =
     (streams w)[f := (streams w ! f)\<lparr>written := written (streams w ! f) @ [c]\<rparr>]"
  by (simp add: writeChunk_def)

lemma recordField_effect:
  assumes "f < length (streams w)"
  shows "heap (recordField r f w x) = heap w"
    and "streams (recordField r f w x) =
           (streams w)[f := (streams w ! f)
              \<lparr>written := written (streams w ! f) @ recordedFields (heap w) (measurements_r r) [x]\<rparr>]"
proof -
  show "heap (recordField r f w x) = heap w"
    by (simp add: recordField_def consoleLog_proj writeChunk_proj split: option.splits)
  show "streams (recordField r f w x) =
           (streams w)[f := (streams w ! f)
              \<lparr>written := written (streams w ! f) @ recordedFields (heap w) (measurements_r r) [x]\<rparr>]"
    using assms
    by (simp add: recordField_def recordedFields_def map_filter_simps consoleLog_proj
        writeChunk_streams list_update_same_conv split: option.splits)
qed

lemma foldl_recordField:
  assumes "f < length (streams w)"
  shows "heap (foldl (recordField r f) w ids) = heap w \<and>
         streams (foldl (recordField r f) w ids) =
           (streams w)[f := (streams w ! f)
              \<lparr>written := written (streams w ! f) @ recordedFields (heap w) (measurements_r r) ids\<rparr>]"
  using assms
proof (induction ids arbitrary: w)
  case Nil
  then show ?case by (simp add: recordedFields_def map_filter_simps list_update_same_conv)
next
  case (Cons x ids)
  let ?w1 = "recordField r f w x"
  note e = recordField_effect[OF Cons.prems, of r x]
  have l: "f < length (streams ?w1)" using e(2) Cons.prems by simp
  note ih = Cons.IH[OF l]
  show ?case
    using ih e Cons.prems
    by (simp add: recordedFields_Cons[of _ _ x ids])
qed

lemma record_program_idle:
  assumes "currentValue (heap w) (measurements_r r) ''total_cycles'' = Some (Fin 0)"
  shows "record_program now (r, w) =
           Inr (r, consoleLog ''No activity detected yet, skipping data point.'' w)"
  using assms by (auto simp: record_program_def currentValue_def Let_def)

lemma record_program_row:
  assumes "fileWriter r = Some f" and "f < length (streams w)"
    and "currentValue (heap w) (measurements_r r) ''total_cycles'' \<noteq> Some (Fin 0)"
  shows "\<exists>w'. record_program now (r, w) = Inr (r, w') \<and> heap w' = heap w \<and>
           streams w' = (streams w)[f := (streams w ! f)
             \<lparr>written := written (streams w ! f) @ expectedRow (heap w) (measurements_r r) now\<rparr>]"
proof -
  let ?c = "[Str ''Data,1,record,timestamp,\"'', IntVal (now div 1000 - GARMIN_EPOCH), Str ''\",s,'']"
  let ?w1 = "writeChunk f ?c w"
  let ?w2 = "foldl (recordField r f) ?w1 measurementIds"
  have rp: "record_program now (r, w) = Inr (r, writeChunk f [Str ''\<newline>''] ?w2)"
    using assms(1,3) by (auto simp: record_program_def currentValue_def Let_def)
  have l1: "f < length (streams ?w1)" using assms(2) by (simp add: writeChunk_proj)
  note fr = foldl_recordField[OF l1, of r measurementIds]
  have h: "heap (writeChunk f [Str ''\<newline>''] ?w2) = heap w"
    using fr by (simp add: writeChunk_proj)
  have s: "streams (writeChunk f [Str ''\<newline>''] ?w2) =
      (streams w)[f := (streams w ! f)
        \<lparr>written := written (streams w ! f) @ expectedRow (heap w) (measurements_r r) now\<rparr>]"
    using fr assms(2)
    by (simp add: writeChunk_streams writeChunk_proj expectedRow_def)
  show ?thesis using rp h s by simp
qed

lemma recordedFields_all:
  assumes "list_all (\<lambda>x. case currentValue h refs x of None \<Rightarrow> False | Some v \<Rightarrow> \<not> isNaN v) ids"
  shows "recordedFields h refs ids =
           map (\<lambda>x. [Str (x @ '',\"''), NumVal (the (currentValue h refs x)),
                      Str (''\",'' @ unit (h (the (findMetric h refs x))) @ '','')]) ids"
  using assms
proof (induction ids)
  case Nil
  then show ?case by (simp add: recordedFields_def map_filter_simps)
next
  case (Cons x ids)
  then obtain a where a: "findMetric h refs x = Some a" "\<not> isNaN (val (h a))"
    by (auto simp: currentValue_def split: option.splits)
  have "metric (h a) = x" using findMetric_Some(2)[OF a(1)] .
  then have "recordedFields h refs [x] =
      [[Str (x @ '',\"''), NumVal (the (currentValue h refs x)),
        Str (''\",'' @ unit (h (the (findMetric h refs x))) @ '','')]]"
    using a by (simp add: recordedFields_def map_filter_simps currentValue_def)
  then show ?case using Cons recordedFields_Cons[of h refs x ids] by simp
qed

lemma onMessage_found:
  assumes "List.find (\<lambda>a. endsWith topic (metric (heap w a))) (measurements_r r) = Some a"
  shows "onMessage topic parsed (r, w) = (r, setValue a parsed w)"
  using assms by (simp add: onMessage_def)

lemma setValue_proj:
  "streams (setValue a v w) = streams w"
  "heap (setValue a v w) = (heap w)(a := (heap w a)\<lparr>val := v\<rparr>)"
  by (simp_all add: setValue_def)

text \<open>
  Claim C1, as stated, fails: a cached value that is NaN is left out of the row. The
  recorder of the program is started; the message \<open>5\<close> arrives on
  \<open>waterrower/total_cycles\<close> and a payload that is no number (\<open>parseFloat\<close> gives NaN)
  on \<open>heart_rate_monitor/heart_rate\<close>. The tick then writes a row of five metrics:
  \<open>heart_rate\<close> is in the device set and cached, and is not in the row.
\<close>

theorem record_skips_NaN_counterexample:
  "\<exists>r w w'.
     onMessage ''heart_rate_monitor/heart_rate'' NaN
       (onMessage ''waterrower/total_cycles'' (Fin 5)
          (start 1000 (activityRecorder 0, initialWorld))) = (r, w) \<and>
     currentValue (heap w) (measurements_r r) ''total_cycles'' = Some (Fin 5) \<and>
     currentValue (heap w) (measurements_r r) ''heart_rate'' = Some NaN \<and>
     record_program 2000 (r, w) = Inr (r, w') \<and>
     drop 6 (written (streams w' ! 0)) =
       [[Str ''Data,1,record,timestamp,\"'', IntVal (2 - 631065600), Str ''\",s,''],
        [Str ''distance,\"'', NumVal (Fin 0), Str ''\",m,''],
        [Str ''power,\"'', NumVal (Fin 0), Str ''\",watts,''],
        [Str ''total_cycles,\"'', NumVal (Fin 5), Str ''\",cycles,''],
        [Str ''speed,\"'', NumVal (Fin 0), Str ''\",m/s,''],
        [Str ''cadence,\"'', NumVal (Fin 0), Str ''\",spm,''],
        [Str ''\<newline>'']]"
proof -
  let ?r0 = "activityRecorder 0"
  have n: "recordingInterval ?r0 = None" "measurements_r ?r0 = [6, 0, 1, 2, 3, 4, 5]"
    by (simp_all add: program_defs)
  have i: "streams initialWorld = []" by (simp add: initialWorld_def)
  obtain r1 w1 where o1: "start 1000 (?r0, initialWorld) = (r1, w1)" by fastforce
  note f1 = start_fresh[OF n(1) o1] start_fresh_stream[OF n(1) o1]
  have p1: "fileWriter r1 = Some 0" "length (streams w1) = 1"
    "length (written (streams w1 ! 0)) = 6" "heap w1 = initialStore"
    "measurements_r r1 = [6, 0, 1, 2, 3, 4, 5]"
    using f1 i n(2) by (simp_all add: initialWorld_def)
  let ?w2 = "setValue 2 (Fin 5) w1"
  have o2: "onMessage ''waterrower/total_cycles'' (Fin 5) (r1, w1) = (r1, ?w2)"
    by (rule onMessage_found)
       (simp add: p1 initialStore_def newMeasurement_def endsWith_def)
  let ?w3 = "setValue 6 NaN ?w2"
  have o3: "onMessage ''heart_rate_monitor/heart_rate'' NaN (r1, ?w2) = (r1, ?w3)"
    by (rule onMessage_found)
       (simp add: p1 setValue_proj initialStore_def newMeasurement_def endsWith_def)
  have s3: "streams ?w3 = streams w1" by (simp add: setValue_proj)
  have c: "currentValue (heap ?w3) (measurements_r r1) ''total_cycles'' = Some (Fin 5)"
    "currentValue (heap ?w3) (measurements_r r1) ''heart_rate'' = Some NaN"
    by (simp_all add: currentValue_def findMetric_def p1 setValue_proj initialStore_def
        newMeasurement_def)
  have l: "0 < length (streams ?w3)" using s3 p1(2) by simp
  have nz: "currentValue (heap ?w3) (measurements_r r1) ''total_cycles'' \<noteq> Some (Fin 0)"
    using c(1) by simp
  from record_program_row[OF p1(1) l nz, of 2000]
  obtain w' where o4: "record_program 2000 (r1, ?w3) = Inr (r1, w')"
    and s4: "streams w' = (streams ?w3)[0 := (streams ?w3 ! 0)
       \<lparr>written := written (streams ?w3 ! 0) @ expectedRow (heap ?w3) (measurements_r r1) 2000\<rparr>]"
    by blast
  have row: "expectedRow (heap ?w3) (measurements_r r1) 2000 =
       [[Str ''Data,1,record,timestamp,\"'', IntVal (2 - 631065600), Str ''\",s,''],
        [Str ''distance,\"'', NumVal (Fin 0), Str ''\",m,''],
        [Str ''power,\"'', NumVal (Fin 0), Str ''\",watts,''],
        [Str ''total_cycles,\"'', NumVal (Fin 5), Str ''\",cycles,''],
        [Str ''speed,\"'', NumVal (Fin 0), Str ''\",m/s,''],
        [Str ''cadence,\"'', NumVal (Fin 0), Str ''\",spm,''],
        [Str ''\<newline>'']]"
    by (simp add: expectedRow_def recordedFields_def measurementIds_def map_filter_simps
        findMetric_def p1 setValue_proj initialStore_def newMeasurement_def isNaN_def
        GARMIN_EPOCH_def)
  have "drop 6 (written (streams w' ! 0)) = expectedRow (heap ?w3) (measurements_r r1) 2000"
    using s4 s3 p1(2,3) by simp
  then show ?thesis using o1 o2 o3 c o4 row by auto
qed

text \<open>
  Claim C1, amended. On a tick of an open session (the recorder holds a stream): if the
  cached \<open>total_cycles\<close> is exactly 0, nothing is written. Otherwise exactly one data
  row is written to the stream: the chunk with the timestamp; then, in the fixed order
  \<open>distance, power, total_cycles, speed, cadence, heart_rate\<close>, one chunk with the
  metric, the cached value and the unit for each of these metrics that is in the cache
  and whose cached value is not NaN (a metric that is missing or holds NaN is left out);
  then the line end. The cache is the devices' own objects, so a metric never updated
  is written with its default 0. When all six metrics are cached and none is NaN, the
  row holds all six.
\<close>

theorem record_writes_one_row:
  assumes "fileWriter r = Some f" and "f < length (streams w)"
  shows "(currentValue (heap w) (measurements_r r) ''total_cycles'' = Some (Fin 0) \<longrightarrow>
            (\<exists>w'. record_program now (r, w) = Inr (r, w') \<and>
                  streams w' = streams w \<and> heap w' = heap w)) \<and>
         (currentValue (heap w) (measurements_r r) ''total_cycles'' \<noteq> Some (Fin 0) \<longrightarrow>
            (\<exists>w'. record_program now (r, w) = Inr (r, w') \<and> heap w' = heap w \<and>
                  streams w' = (streams w)[f := (streams w ! f)
                    \<lparr>written := written (streams w ! f) @
                                expectedRow (heap w) (measurements_r r) now\<rparr>])) \<and>
         (list_all (\<lambda>x. case currentValue (heap w) (measurements_r r) x of
                          None \<Rightarrow> False | Some v \<Rightarrow> \<not> isNaN v) measurementIds \<longrightarrow>
            expectedRow (heap w) (measurements_r r) now =
              [Str ''Data,1,record,timestamp,\"'', IntVal (now div 1000 - GARMIN_EPOCH), Str ''\",s,''] #
              map (\<lambda>x. [Str (x @ '',\"''),
                         NumVal (the (currentValue (heap w) (measurements_r r) x)),
                         Str (''\",'' @ unit (heap w (the (findMetric (heap w) (measurements_r r) x))) @ '','')])
                  [''distance'', ''power'', ''total_cycles'', ''speed'', ''cadence'', ''heart_rate''] @
              [[Str ''\<newline>'']])"
proof (intro conjI impI)
  assume "currentValue (heap w) (measurements_r r) ''total_cycles'' = Some (Fin 0)"
  then show "\<exists>w'. record_program now (r, w) = Inr (r, w') \<and>
                  streams w' = streams w \<and> heap w' = heap w"
    using record_program_idle by (simp add: consoleLog_proj)
next
  assume "currentValue (heap w) (measurements_r r) ''total_cycles'' \<noteq> Some (Fin 0)"
  then show "\<exists>w'. record_program now (r, w) = Inr (r, w') \<and> heap w' = heap w \<and>
                  streams w' = (streams w)[f := (streams w ! f)
                    \<lparr>written := written (streams w ! f) @
                                expectedRow (heap w) (measurements_r r) now\<rparr>]"
    using record_program_row[OF assms] by blast
next
  assume "list_all (\<lambda>x. case currentValue (heap w) (measurements_r r) x of
                          None \<Rightarrow> False | Some v \<Rightarrow> \<not> isNaN v) measurementIds"
  then show "expectedRow (heap w) (measurements_r r) now =
              [Str ''Data,1,record,timestamp,\"'', IntVal (now div 1000 - GARMIN_EPOCH), Str ''\",s,''] #
              map (\<lambda>x. [Str (x @ '',\"''),
                         NumVal (the (currentValue (heap w) (measurements_r r) x)),
                         Str (''\",'' @ unit (heap w (the (findMetric (heap w) (measurements_r r) x))) @ '','')])
                  [''distance'', ''power'', ''total_cycles'', ''speed'', ''cadence'', ''heart_rate''] @
              [[Str ''\<newline>'']]"
    using recordedFields_all[of "heap w" "measurements_r r" measurementIds]
    by (simp add: expectedRow_def measurementIds_def)
qed

theorem record_writes_one_row_witness:
  "\<exists>r w w0 w1.
     start 1000 (activityRecorder 0, initialWorld) = (r, w0) \<and>
     fileWriter r = Some 0 \<and> length (streams w0) = 1 \<and>
     currentValue (heap w0) (measurements_r r) ''total_cycles'' = Some (Fin 0) \<and>
     record_program 2000 (r, w0) = Inr (r, w1) \<and> streams w1 = streams w0 \<and>
     snd (onData 1500 ''IDD1400005'' (waterRower, w0)) = w \<and>
     currentValue (heap w) (measurements_r r) ''total_cycles'' = Some (Fin 5) \<and>
     list_all (\<lambda>x. case currentValue (heap w) (measurements_r r) x of
                      None \<Rightarrow> False | Some v \<Rightarrow> \<not> isNaN v) measurementIds \<and>
     (\<exists>w'. record_program 2000 (r, w) = Inr (r, w') \<and>
        drop 6 (written (streams w' ! 0)) =
          [[Str ''Data,1,record,timestamp,\"'', IntVal (2 - 631065600), Str ''\",s,''],
           [Str ''distance,\"'', NumVal (Fin 0), Str ''\",m,''],
           [Str ''power,\"'', NumVal (Fin 0), Str ''\",watts,''],
           [Str ''total_cycles,\"'', NumVal (Fin 5), Str ''\",cycles,''],
           [Str ''speed,\"'', NumVal (Fin 0), Str ''\",m/s,''],
           [Str ''cadence,\"'', NumVal (Fin 0), Str ''\",spm,''],
           [Str ''heart_rate,\"'', NumVal (Fin 0), Str ''\",bpm,''],
           [Str ''\<newline>'']])"
proof -
  let ?r0 = "activityRecorder 0"
  have n: "recordingInterval ?r0 = None" "measurements_r ?r0 = [6, 0, 1, 2, 3, 4, 5]"
    by (simp_all add: program_defs)
  have i: "streams initialWorld = []" by (simp add: initialWorld_def)
  obtain r1 w1 where o1: "start 1000 (?r0, initialWorld) = (r1, w1)" by fastforce
  note f1 = start_fresh[OF n(1) o1] start_fresh_stream[OF n(1) o1]
  have p1: "fileWriter r1 = Some 0" "length (streams w1) = 1"
    "length (written (streams w1 ! 0)) = 6" "heap w1 = initialStore"
    "measurements_r r1 = [6, 0, 1, 2, 3, 4, 5]"
    using f1 i n(2) by (simp_all add: initialWorld_def)
  have l1: "0 < length (streams w1)" using p1(2) by simp
  have c1: "currentValue (heap w1) (measurements_r r1) ''total_cycles'' = Some (Fin 0)"
    by (simp add: currentValue_def findMetric_def p1 initialStore_def newMeasurement_def)
  note t1 = record_writes_one_row[OF p1(1) l1, of 2000]
  obtain v1 where idle: "record_program 2000 (r1, w1) = Inr (r1, v1)" "streams v1 = streams w1"
    using t1 c1 by blast
  obtain d2 w2 where o2: "onData 1500 ''IDD1400005'' (waterRower, w1) = (d2, w2)" by fastforce
  have sw: "startsWith ''IDD1400005'' ''IDD140''" by (simp add: startsWith_def)
  have pv: "payloadValue ''IDD1400005'' = 5" by (simp add: decode_defs)
  have fm: "findMetric (heap w1) (measurements waterRower) ''total_cycles'' = Some 2"
    by (simp add: findMetric_def p1 initialStore_def newMeasurement_def waterRower_def)
  have "parseAndPublishData 1500 ''IDD1400005'' ''total_cycles'' (waterRower, w1) =
        storeAndPublish ''total_cycles'' (Fin 5) (waterRower, w1)"
    using pv by (simp add: parseAndPublishData_def Let_def)
  then have w2: "w2 = publish (type waterRower) 2 (setValue 2 (Fin 5) w1)"
    using o2 onData_IDD140[OF sw, of 1500 "(waterRower, w1)"] storeAndPublish_found[OF fm]
    by simp
  have h2: "heap w2 = initialStore(2 := (initialStore 2)\<lparr>val := Fin 5\<rparr>)"
    and s2: "streams w2 = streams w1"
    using w2 p1(4) by (simp_all add: publish_def setValue_def)
  have c2: "currentValue (heap w2) (measurements_r r1) ''total_cycles'' = Some (Fin 5)"
    by (simp add: currentValue_def findMetric_def p1 h2 initialStore_def newMeasurement_def)
  have la: "list_all (\<lambda>x. case currentValue (heap w2) (measurements_r r1) x of
                      None \<Rightarrow> False | Some v \<Rightarrow> \<not> isNaN v) measurementIds"
    by (simp add: currentValue_def findMetric_def measurementIds_def p1 h2 initialStore_def
        newMeasurement_def isNaN_def)
  have l2: "0 < length (streams w2)" using s2 p1(2) by simp
  note t2 = record_writes_one_row[OF p1(1) l2, of 2000]
  have nz: "currentValue (heap w2) (measurements_r r1) ''total_cycles'' \<noteq> Some (Fin 0)"
    using c2 by simp
  obtain w' where o4: "record_program 2000 (r1, w2) = Inr (r1, w')"
    and s4: "streams w' = (streams w2)[0 := (streams w2 ! 0)
       \<lparr>written := written (streams w2 ! 0) @ expectedRow (heap w2) (measurements_r r1) 2000\<rparr>]"
    using t2 nz by blast
  have row: "expectedRow (heap w2) (measurements_r r1) 2000 =
          [[Str ''Data,1,record,timestamp,\"'', IntVal (2 - 631065600), Str ''\",s,''],
           [Str ''distance,\"'', NumVal (Fin 0), Str ''\",m,''],
           [Str ''power,\"'', NumVal (Fin 0), Str ''\",watts,''],
           [Str ''total_cycles,\"'', NumVal (Fin 5), Str ''\",cycles,''],
           [Str ''speed,\"'', NumVal (Fin 0), Str ''\",m/s,''],
           [Str ''cadence,\"'', NumVal (Fin 0), Str ''\",spm,''],
           [Str ''heart_rate,\"'', NumVal (Fin 0), Str ''\",bpm,''],
           [Str ''\<newline>'']]"
    by (simp add: expectedRow_def recordedFields_def measurementIds_def map_filter_simps
        findMetric_def p1 h2 initialStore_def newMeasurement_def isNaN_def GARMIN_EPOCH_def)
  have "drop 6 (written (streams w' ! 0)) = expectedRow (heap w2) (measurements_r r1) 2000"
    using s4 s2 p1(2,3) by simp
  then have "\<exists>w'. record_program 2000 (r1, w2) = Inr (r1, w') \<and>
        drop 6 (written (streams w' ! 0)) =
          [[Str ''Data,1,record,timestamp,\"'', IntVal (2 - 631065600), Str ''\",s,''],
           [Str ''distance,\"'', NumVal (Fin 0), Str ''\",m,''],
           [Str ''power,\"'', NumVal (Fin 0), Str ''\",watts,''],
           [Str ''total_cycles,\"'', NumVal (Fin 5), Str ''\",cycles,''],
           [Str ''speed,\"'', NumVal (Fin 0), Str ''\",m/s,''],
           [Str ''cadence,\"'', NumVal (Fin 0), Str ''\",spm,''],
           [Str ''heart_rate,\"'', NumVal (Fin 0), Str ''\",bpm,''],
           [Str ''\<newline>'']]"
    using o4 row by simp
  then show ?thesis using o1 p1(1,2) c1 idle o2 c2 la by auto
qed

section \<open>The recorder's cache and the devices' measurements\<close>

lemma find_append_first:
  "List.find P (xs @ ys) = (case List.find P xs of None \<Rightarrow> List.find P ys | Some x \<Rightarrow> Some x)"
  by (induction xs) auto

lemma findMetric_concat:
  assumes "device \<in> set devices"
    and "findMetric h (measurements device) name = Some a"
    and "\<forall>other \<in> set devices. other \<noteq> device \<longrightarrow> findMetric h (measurements other) name = None"
  shows "findMetric h (concat (map measurements devices)) name = Some a"
  using assms
proof (induction devices)
  case Nil
  then show ?case by simp
next
  case (Cons d ds)
  show ?case
  proof (cases "d = device")
    case True
    then show ?thesis
      using Cons.prems(2) by (simp add: findMetric_def find_append_first)
  next
    case False
    then have "findMetric h (measurements d) name = None" and "device \<in> set ds"
      using Cons.prems by auto
    then show ?thesis
      using Cons.IH Cons.prems(2,3) by (simp add: findMetric_def find_append_first)
  qed
qed

lemma recorder_keeps_references:
  "measurements_r (fst (start now (r, w))) = measurements_r r"
  "measurements_r (fst (onMessage topic parsed (r, w))) = measurements_r r"
  "measurements_r (fst (fst (stop_program now (r, w)))) = measurements_r r"
  "measurements_r (fst (stop exit (r, w))) = measurements_r r"
proof -
  show "measurements_r (fst (start now (r, w))) = measurements_r r"
  proof (cases "recordingInterval r = None")
    case True
    obtain r1 w1 where "start now (r, w) = (r1, w1)" by fastforce
    then show ?thesis using start_fresh(6)[OF True] by simp
  next
    case False
    then show ?thesis by (simp add: start_running)
  qed
  show "measurements_r (fst (onMessage topic parsed (r, w))) = measurements_r r"
    by (simp add: onMessage_def split: option.splits)
  show "measurements_r (fst (fst (stop_program now (r, w)))) = measurements_r r"
    by (simp add: stop_program_def Let_def split: option.splits)
  show "measurements_r (fst (stop exit (r, w))) = measurements_r r"
    by (simp add: stop_def)
qed

text \<open>
  Claim C9. The recorder's array holds exactly the references in the devices' arrays,
  and none of the recorder's operations replaces it. For a metric that one device of
  the set owns, the recorder's lookup returns the very object that the device's lookup
  returns, in every store; so the value the recorder reads is the device's current
  value. In particular, after the driver has handled a received line and written to
  its measurements directly, the recorder reads the new value from the same store, with
  no message handled by the recorder in between.
\<close>

theorem recorder_reads_device_objects:
  assumes "device \<in> set devices"
    and "findMetric h (measurements device) name = Some a"
    and "\<forall>other \<in> set devices. other \<noteq> device \<longrightarrow> findMetric h (measurements other) name = None"
    and "r = newActivityRecorder t0 devices"
  shows "set (measurements_r r) = (\<Union>d \<in> set devices. set (measurements d)) \<and>
         findMetric h (measurements_r r) name = Some a \<and>
         currentValue h (measurements_r r) name = currentValue h (measurements device) name \<and>
         (\<forall>now stringData drv w drv' w'.
            measurements drv = measurements device \<and> heap w = h \<and>
            onData now stringData (drv, w) = (drv', w') \<longrightarrow>
              currentValue (heap w') (measurements_r r) name = Some (val (heap w' a)) \<and>
              currentValue (heap w') (measurements drv') name = Some (val (heap w' a))) \<and>
         (\<forall>now topic parsed exit w.
            measurements_r (fst (start now (r, w))) = measurements_r r \<and>
            measurements_r (fst (onMessage topic parsed (r, w))) = measurements_r r \<and>
            measurements_r (fst (fst (stop_program now (r, w)))) = measurements_r r \<and>
            measurements_r (fst (stop exit (r, w))) = measurements_r r)"
proof -
  have m: "measurements_r r = concat (map measurements devices)"
    using assms(4) by (simp add: newActivityRecorder_def)
  have 1: "set (measurements_r r) = (\<Union>d \<in> set devices. set (measurements d))"
    using m by simp
  have 2: "findMetric h (measurements_r r) name = Some a"
    using findMetric_concat[OF assms(1,2,3)] m by simp
  have 3: "currentValue h (measurements_r r) name = currentValue h (measurements device) name"
    using 2 assms(2) by (simp add: currentValue_def)
  have 4: "currentValue (heap w') (measurements_r r) name = Some (val (heap w' a)) \<and>
           currentValue (heap w') (measurements drv') name = Some (val (heap w' a))"
    if "measurements drv = measurements device" and "heap w = h"
      and "onData now stringData (drv, w) = (drv', w')"
    for now stringData drv w drv' w'
  proof -
    have k: "\<And>x. metric (heap w' x) = metric (h x)"
      using onData_frame(3)[of now stringData "(drv, w)"] that(2,3) by simp
    have "findMetric (heap w') (measurements_r r) name = Some a"
      using findMetric_heap_cong[of "heap w'" h, OF k] 2 by simp
    moreover have "findMetric (heap w') (measurements drv') name = Some a"
      using onData_findMetric[OF that(3), of name] that(1,2) assms(2) by simp
    ultimately show ?thesis by (simp add: currentValue_def)
  qed
  have 5: "\<forall>now stringData drv w drv' w'.
            measurements drv = measurements device \<and> heap w = h \<and>
            onData now stringData (drv, w) = (drv', w') \<longrightarrow>
              currentValue (heap w') (measurements_r r) name = Some (val (heap w' a)) \<and>
              currentValue (heap w') (measurements drv') name = Some (val (heap w' a))"
    by (intro allI impI, elim conjE, rule 4)
  have 6: "\<forall>now topic parsed exit w.
            measurements_r (fst (start now (r, w))) = measurements_r r \<and>
            measurements_r (fst (onMessage topic parsed (r, w))) = measurements_r r \<and>
            measurements_r (fst (fst (stop_program now (r, w)))) = measurements_r r \<and>
            measurements_r (fst (stop exit (r, w))) = measurements_r r"
    by (simp add: recorder_keeps_references)
  show ?thesis
    by (intro conjI 1 2 3 5 6)
qed

theorem recorder_reads_device_objects_witness:
  "measurements_r (activityRecorder 0) = [6, 0, 1, 2, 3, 4, 5] \<and>
   findMetric (heap initialWorld) (measurements waterRower) ''total_cycles'' = Some 2 \<and>
   findMetric (heap initialWorld) (measurements heartRateMonitor) ''total_cycles'' = None \<and>
   findMetric (heap initialWorld) (measurements_r (activityRecorder 0)) ''total_cycles'' = Some 2 \<and>
   currentValue (heap (snd (onData 0 ''IDD1400005'' (waterRower, initialWorld))))
     (measurements_r (activityRecorder 0)) ''total_cycles'' = Some (Fin 5)"
proof -
  let ?dev = "SportingDevice.truncate waterRower"
  let ?devs = "[heartRateMonitor, ?dev]"
  have d: "?dev \<in> set ?devs" by simp
  have md: "measurements ?dev = measurements waterRower"
    by (simp add: SportingDevice.truncate_def)
  have f: "findMetric (heap initialWorld) (measurements ?dev) ''total_cycles'' = Some 2"
    by (simp add: program_defs)
  have f': "findMetric (heap initialWorld) (measurements waterRower) ''total_cycles'' = Some 2"
    using f md by simp
  have g: "findMetric (heap initialWorld) (measurements heartRateMonitor) ''total_cycles'' = None"
    by (simp add: program_defs)
  have u: "\<forall>other \<in> set ?devs. other \<noteq> ?dev \<longrightarrow>
             findMetric (heap initialWorld) (measurements other) ''total_cycles'' = None"
    using g by simp
  have r: "activityRecorder 0 = newActivityRecorder 0 ?devs"
    by (simp add: activityRecorder_def)
  note t = recorder_reads_device_objects[OF d f u r]
  obtain d' w' where o: "onData 0 ''IDD1400005'' (waterRower, initialWorld) = (d', w')"
    by fastforce
  have sw: "startsWith ''IDD1400005'' ''IDD140''" by (simp add: startsWith_def)
  have pv: "payloadValue ''IDD1400005'' = 5" by (simp add: decode_defs)
  have v: "val (heap w' 2) = Fin 5"
    using onData_total_cycles[OF f' o] sw pv by simp
  have pre: "measurements waterRower = measurements ?dev \<and> heap initialWorld = heap initialWorld \<and>
      onData 0 ''IDD1400005'' (waterRower, initialWorld) = (d', w')"
    using md o by simp
  have "currentValue (heap w') (measurements_r (activityRecorder 0)) ''total_cycles'' =
          Some (val (heap w' 2))"
    using t[THEN conjunct2, THEN conjunct2, THEN conjunct2, THEN conjunct1, rule_format, OF pre]
    by simp
  then have "currentValue (heap (snd (onData 0 ''IDD1400005'' (waterRower, initialWorld))))
     (measurements_r (activityRecorder 0)) ''total_cycles'' = Some (Fin 5)"
    using v o by simp
  moreover have "measurements_r (activityRecorder 0) = [6, 0, 1, 2, 3, 4, 5]"
    by (simp add: program_defs)
  ultimately show ?thesis
    using t[THEN conjunct2, THEN conjunct1] f' g by simp
qed

end
